theory Spec2Isabelle
  imports Complex_Main "HOL-Library.Log_Nat"
begin

section \<open>Python floats\<close>

text \<open>
  A Python \<^verbatim>\<open>float\<close> is an IEEE 754 binary64 number. A finite one is kept as its sign
  (\<open>True\<close> for minus) and its magnitude, an exact rational; two finite doubles are the same
  bit pattern exactly when sign and magnitude agree. Every arithmetic result and every
  literal is the exact rational result rounded to the nearest double, ties to the even
  mantissa, which is what the hardware and CPython's parser do.
\<close>

datatype float64 = Finite bool rat | Infinity bool | NaN

text \<open>\<open>ilog2 q\<close> is \<open>\<lfloor>log\<^sub>2 q\<rfloor>\<close> for a positive rational, from the bit lengths of its
  numerator and denominator.\<close>

definition ilog2 :: "rat \<Rightarrow> int" where
  "ilog2 q = (let a = fst (quotient_of q); b = snd (quotient_of q); k = bitlen a - bitlen b
              in if 2 powi k \<le> q then k else k - 1)"

definition round_half_even :: "rat \<Rightarrow> int" where
  "round_half_even x = (let n = \<lfloor>x\<rfloor>; f = x - of_int n in
      if f < 1/2 then n else if 1/2 < f then n + 1 else if even n then n else n + 1)"

text \<open>The exponent of the unit in the last place: 53 significant bits, and the fixed
  exponent \<open>-1074\<close> of the subnormal numbers below \<open>2\<^sup>-\<^sup>1\<^sup>0\<^sup>2\<^sup>2\<close>.\<close>

definition ulp_exponent :: "rat \<Rightarrow> int" where
  "ulp_exponent q = max (ilog2 q - 52) (- 1074)"

definition round_magnitude :: "rat \<Rightarrow> rat" where
  "round_magnitude q = (if q = 0 then 0 else
     of_int (round_half_even (q / 2 powi ulp_exponent q)) * 2 powi ulp_exponent q)"

text \<open>A rounded magnitude of \<open>2\<^sup>1\<^sup>0\<^sup>2\<^sup>4\<close> or more overflows to infinity.\<close>

definition round64 :: "bool \<Rightarrow> rat \<Rightarrow> float64" where
  "round64 s q = (let r = round_magnitude q in if 2 ^ 1024 \<le> r then Infinity s else Finite s r)"

text \<open>A literal \<^verbatim>\<open>d.ddde\<plusminus>x\<close>, given by its decimal mantissa and its exponent of ten:
  \<^verbatim>\<open>6.02214179e+23\<close> is \<open>float_literal 6.02214179 23\<close>, \<^verbatim>\<open>0.997\<close> is
  \<open>float_literal 0.997 0\<close>.\<close>

definition float_literal :: "rat \<Rightarrow> int \<Rightarrow> float64" where
  "float_literal m e = round64 (m < 0) (\<bar>m\<bar> * 10 powi e)"

text \<open>\<open>0.0\<close> and \<open>-0.0\<close>.\<close>

definition is_zero :: "float64 \<Rightarrow> bool" where
  "is_zero a = (case a of Finite s q \<Rightarrow> q = 0 | _ \<Rightarrow> False)"

text \<open>\<^verbatim>\<open>a * b\<close> on floats never raises.\<close>

fun float_mul :: "float64 \<Rightarrow> float64 \<Rightarrow> float64" where
  "float_mul NaN b = NaN"
| "float_mul a NaN = NaN"
| "float_mul (Infinity s) (Infinity t) = Infinity (s \<noteq> t)"
| "float_mul (Infinity s) (Finite t q) = (if q = 0 then NaN else Infinity (s \<noteq> t))"
| "float_mul (Finite s p) (Infinity t) = (if p = 0 then NaN else Infinity (s \<noteq> t))"
| "float_mul (Finite s p) (Finite t q) = round64 (s \<noteq> t) (p * q)"

text \<open>The IEEE quotient by a divisor that is not zero.\<close>

fun ieee_div :: "float64 \<Rightarrow> float64 \<Rightarrow> float64" where
  "ieee_div NaN b = NaN"
| "ieee_div a NaN = NaN"
| "ieee_div (Infinity s) (Infinity t) = NaN"
| "ieee_div (Infinity s) (Finite t q) = Infinity (s \<noteq> t)"
| "ieee_div (Finite s p) (Infinity t) = Finite (s \<noteq> t) 0"
| "ieee_div (Finite s p) (Finite t q) = round64 (s \<noteq> t) (p / q)"

section \<open>Python exceptions as values\<close>

text \<open>
  Every \<^verbatim>\<open>raise\<close> of the two modules, and every exception the Python runtime can
  throw inside them, is a value of type \<open>error\<close>. The two \<^verbatim>\<open>ValueError\<close>s of
  \<^verbatim>\<open>convert\<close> differ only by their formatted message; the message is kept as the
  format it was built from together with the values interpolated into it.
\<close>

datatype message =
    Units_must_be_one_of "string set" string string
      \<comment> \<open>\<^verbatim>\<open>"units must be one of %r, not %r or %r" % (unit_types.keys(), u1, u2)\<close>\<close>
  | Cannot_convert_between_unit_types string string
      \<comment> \<open>\<^verbatim>\<open>"Cannot convert between unit types %(ut1)s --> %(ut2)s" % vars()\<close>\<close>

datatype error =
    KeyError string
  | ZeroDivisionError
  | OverflowError
  | ValueError message
  | TypeError string

text \<open>\<^verbatim>\<open>a / b\<close> on floats: CPython raises \<^verbatim>\<open>ZeroDivisionError\<close> for a divisor \<open>0.0\<close> or
  \<open>-0.0\<close>, whatever the dividend, and takes the IEEE quotient otherwise.\<close>

definition float_div :: "float64 \<Rightarrow> float64 \<Rightarrow> error + float64" where
  "float_div a b = (if is_zero b then Inl ZeroDivisionError else Inr (ieee_div a b))"

text \<open>Sequencing: the first exception raised ends the evaluation.\<close>

definition and_then :: "error + 'a \<Rightarrow> ('a \<Rightarrow> error + 'b) \<Rightarrow> error + 'b" where
  "and_then m f = (case m of Inl e \<Rightarrow> Inl e | Inr v \<Rightarrow> f v)"

text \<open>
  The conversion of an \<^verbatim>\<open>int\<close> operand in mixed arithmetic (\<^verbatim>\<open>1/1.0\<close>, \<^verbatim>\<open>1.0/10\<close>,
  \<^verbatim>\<open>10 * 0.1\<close>): the nearest double, and \<^verbatim>\<open>OverflowError\<close> ("int too large to convert to
  float") when rounding leaves the range of the finite doubles.
\<close>

definition float_of_int :: "int \<Rightarrow> error + float64" where
  "float_of_int i =
     (case round64 (i < 0) (of_int \<bar>i\<bar>) of
        Infinity s \<Rightarrow> Inl OverflowError
      | a \<Rightarrow> Inr a)"

text \<open>\<^verbatim>\<open>i / b\<close> and \<^verbatim>\<open>a / i\<close> for an \<^verbatim>\<open>int\<close> \<open>i\<close> and floats \<open>a\<close>, \<open>b\<close>: the \<^verbatim>\<open>int\<close> is
  converted, then the floats are divided.\<close>

definition int_div_float :: "int \<Rightarrow> float64 \<Rightarrow> error + float64" where
  "int_div_float i b = and_then (float_of_int i) (\<lambda>a. float_div a b)"

definition float_div_int :: "float64 \<Rightarrow> int \<Rightarrow> error + float64" where
  "float_div_int a i = and_then (float_of_int i) (\<lambda>b. float_div a b)"

text \<open>
  The numbers \<^verbatim>\<open>convert\<close> is given: an \<^verbatim>\<open>int\<close> (of any size) or a \<^verbatim>\<open>float\<close>.
  \<^verbatim>\<open>x * f\<close> with a float \<open>f\<close> converts \<open>x\<close> to a double first and multiplies the two
  doubles.
\<close>

datatype number = PyInt int | PyFloat float64

fun as_double :: "number \<Rightarrow> error + float64" where
  "as_double (PyFloat a) = Inr a"
| "as_double (PyInt i) = float_of_int i"

definition number_mul_float :: "number \<Rightarrow> float64 \<Rightarrow> error + float64" where
  "number_mul_float x f = and_then (as_double x) (\<lambda>a. Inr (float_mul a f))"

section \<open>Dictionaries\<close>

text \<open>
  A \<^verbatim>\<open>dict\<close> with string keys is an association list without repeated keys, in
  insertion order. \<^verbatim>\<open>d[k]\<close> raises \<^verbatim>\<open>KeyError(k)\<close> for a missing key; \<^verbatim>\<open>d[k] = v\<close>
  replaces the value of a key that is present and appends a new key otherwise.
\<close>

type_synonym 'v dict = "(string \<times> 'v) list"

definition getitem :: "'v dict \<Rightarrow> string \<Rightarrow> error + 'v" where
  "getitem d k = (case map_of d k of None \<Rightarrow> Inl (KeyError k) | Some v \<Rightarrow> Inr v)"

fun setitem :: "'v dict \<Rightarrow> string \<Rightarrow> 'v \<Rightarrow> 'v dict" where
  "setitem [] k v = [(k, v)]"
| "setitem ((k', v') # d) k v = (if k' = k then (k, v) # d else (k', v') # setitem d k v)"

definition keys :: "'v dict \<Rightarrow> string list" where
  "keys d = map fst d"

definition items :: "'v dict \<Rightarrow> (string \<times> 'v) list" where
  "items d = d"

text \<open>A dictionary display \<^verbatim>\<open>{k1: e1, k2: e2, ...}\<close>: the values are evaluated and stored
  from left to right, starting from the dictionary given.\<close>

fun dict_display :: "(string \<times> (error + 'v)) list \<Rightarrow> 'v dict \<Rightarrow> error + 'v dict" where
  "dict_display [] d = Inr d"
| "dict_display ((k, e) # es) d =
     (case e of Inl err \<Rightarrow> Inl err | Inr v \<Rightarrow> dict_display es (setitem d k v))"

section \<open>The units module (\<^verbatim>\<open>core/units.py\<close>)\<close>

text \<open>The module's global names, as they stand once the module body has run.\<close>

record globals =
  lengthUnit_factor :: "float64 dict"
  N_Avogadro :: float64
  water :: "float64 dict"
  densityUnit_factor :: "float64 dict"
  timeUnit_factor :: "float64 dict"
  conversion_factor :: "float64 dict dict"
  unit_types :: "string dict"

text \<open>The unit name \<^verbatim>\<open>'\xc3\x85'\<close>: the two UTF-8 bytes of the letter A with a ring
  above, as the source file (coding utf-8) holds it.\<close>

definition A_ring :: string where
  "A_ring = [CHR 0xC3, CHR 0x85]"

text \<open>The right-hand sides of the module's assignments, in the order of the file.\<close>

definition lengthUnit_factor_rhs :: "error + float64 dict" where
  "lengthUnit_factor_rhs = dict_display
     [(''Angstrom'', Inr (float_literal 1.0 0)),
      (''A'', Inr (float_literal 1.0 0)),
      (A_ring, Inr (float_literal 1.0 0)),
      (''nm'', float_div_int (float_literal 1.0 0) 10),
      (''nanometer'', float_div_int (float_literal 1.0 0) 10)] []"

definition N_Avogadro_rhs :: float64 where
  "N_Avogadro_rhs = float_literal 6.02214179 23"

definition water_rhs :: "error + float64 dict" where
  "water_rhs = dict_display
     [(''exp'', Inr (float_literal 0.997 0)),
      (''SPC'', Inr (float_literal 0.985 0)),
      (''TIP3P'', Inr (float_literal 1.002 0)),
      (''TIP4P'', Inr (float_literal 1.001 0)),
      (''MolarMass'', Inr (float_literal 18.016 0))] []"

text \<open>\<^verbatim>\<open>1/(1e-24*N_Avogadro*water[model] / water['MolarMass'])\<close>: \<^verbatim>\<open>*\<close> and \<^verbatim>\<open>/\<close>
  associate to the left.\<close>

definition water_density_factor :: "float64 \<Rightarrow> float64 dict \<Rightarrow> string \<Rightarrow> error + float64" where
  "water_density_factor n_avogadro w model =
     and_then (getitem w model) (\<lambda>rho.
     and_then (getitem w ''MolarMass'') (\<lambda>m.
     and_then (float_div (float_mul (float_mul (float_literal 1 (- 24)) n_avogadro) rho) m) (\<lambda>d.
     int_div_float 1 d)))"

definition densityUnit_factor_rhs :: "float64 \<Rightarrow> float64 dict \<Rightarrow> error + float64 dict" where
  "densityUnit_factor_rhs n_avogadro w = dict_display
     [(''Angstrom^{-3}'', int_div_float 1 (float_literal 1.0 0)),
      (''A^{-3}'', int_div_float 1 (float_literal 1.0 0)),
      (A_ring @ ''^{-3}'', int_div_float 1 (float_literal 1.0 0)),
      (''nm^{-3}'', int_div_float 1 (float_literal 1 (- 3))),
      (''nanometer^{-3}'', int_div_float 1 (float_literal 1 (- 3))),
      (''Molar'', int_div_float 1 (float_mul (float_literal 1 (- 27)) n_avogadro)),
      (''SPC'', water_density_factor n_avogadro w ''SPC''),
      (''TIP3P'', water_density_factor n_avogadro w ''TIP3P''),
      (''TIP4P'', water_density_factor n_avogadro w ''TIP4P''),
      (''water'', water_density_factor n_avogadro w ''exp'')] []"

definition timeUnit_factor_rhs :: "error + float64 dict" where
  "timeUnit_factor_rhs = dict_display
     [(''ps'', int_div_float 1 (float_literal 1.0 0)),
      (''ns'', int_div_float 1 (float_literal 1 3)),
      (''second'', int_div_float 1 (float_literal 1 12)),
      (''AKMA'', int_div_float 1 (float_literal 4.888821 (- 2)))] []"

definition conversion_factor_rhs ::
  "float64 dict \<Rightarrow> float64 dict \<Rightarrow> float64 dict \<Rightarrow> error + float64 dict dict" where
  "conversion_factor_rhs l d t = dict_display
     [(''length'', Inr l), (''density'', Inr d), (''time'', Inr t)] []"

text \<open>
  \<^verbatim>\<open>unit_types = {}\<close> and the two nested \<^verbatim>\<open>for\<close> loops that fill it, over the items
  and keys in the order the dictionaries enumerate them.
\<close>

definition unit_types_loop :: "(string \<times> 'v dict) list \<Rightarrow> string dict" where
  "unit_types_loop its =
     fold (\<lambda>(utype, ufactor) ut. fold (\<lambda>unit ut'. setitem ut' unit utype) (keys ufactor) ut) its []"

text \<open>Running the module body: an exception in it would abort the import.\<close>

definition module_body :: "error + globals" where
  "module_body =
     and_then lengthUnit_factor_rhs (\<lambda>l.
     and_then water_rhs (\<lambda>w.
     and_then (densityUnit_factor_rhs N_Avogadro_rhs w) (\<lambda>d.
     and_then timeUnit_factor_rhs (\<lambda>t.
     and_then (conversion_factor_rhs l d t) (\<lambda>cf.
     Inr \<lparr>lengthUnit_factor = l, N_Avogadro = N_Avogadro_rhs, water = w,
          densityUnit_factor = d, timeUnit_factor = t, conversion_factor = cf,
          unit_types = unit_types_loop (items cf)\<rparr>)))))"

text \<open>The imported module; \<open>module_body_runs\<close> below shows that the body raises nothing.\<close>

definition units :: globals where
  "units = projr module_body"

text \<open>
  The two functions read the global tables and assign to none of them. Each returns its
  result, or the exception it raises, paired with the globals after the call.

  \<^verbatim>\<open>conversion_factor[unit_type][u2] / conversion_factor[unit_type][u1]\<close> evaluates the
  left operand first.
\<close>

definition get_conversion_factor ::
  "globals \<Rightarrow> string \<Rightarrow> string \<Rightarrow> string \<Rightarrow> (error + float64) \<times> globals" where
  "get_conversion_factor g unit_type u1 u2 =
     (and_then (getitem (conversion_factor g) unit_type) (\<lambda>t2.
      and_then (getitem t2 u2) (\<lambda>f2.
      and_then (getitem (conversion_factor g) unit_type) (\<lambda>t1.
      and_then (getitem t1 u1) (\<lambda>f1.
      float_div f2 f1)))), g)"

text \<open>
  \<^verbatim>\<open>convert(x, u1, u2)\<close>: a \<^verbatim>\<open>KeyError\<close> of either lookup inside the \<^verbatim>\<open>try\<close> becomes
  the first \<^verbatim>\<open>ValueError\<close>; different unit types raise the second one; the product
  \<^verbatim>\<open>x * get_conversion_factor(ut1, u1, u2)\<close> is not guarded.
\<close>

definition convert ::
  "globals \<Rightarrow> number \<Rightarrow> string \<Rightarrow> string \<Rightarrow> (error + float64) \<times> globals" where
  "convert g x u1 u2 =
     (case and_then (getitem (unit_types g) u1) (\<lambda>ut1.
           and_then (getitem (unit_types g) u2) (\<lambda>ut2. Inr (ut1, ut2))) of
        Inl (KeyError k) \<Rightarrow>
          (Inl (ValueError (Units_must_be_one_of (set (keys (unit_types g))) u1 u2)), g)
      | Inl e \<Rightarrow> (Inl e, g)
      | Inr (ut1, ut2) \<Rightarrow>
          if ut1 \<noteq> ut2
          then (Inl (ValueError (Cannot_convert_between_unit_types ut1 ut2)), g)
          else (case get_conversion_factor g ut1 u1 u2 of
                  (Inl e, g') \<Rightarrow> (Inl e, g')
                | (Inr f, g') \<Rightarrow> (number_mul_float x f, g')))"

section \<open>The H5MD reader (\<^verbatim>\<open>coordinates/H5MD.py\<close>)\<close>

text \<open>
  The attributes \<^verbatim>\<open>H5MDReader.__init__\<close> assigns, with the name of the object's class
  (\<^verbatim>\<open>self.__class__.__name__\<close>). The time step and the handle of the opened file
  belong to code outside this module and stay abstract.
\<close>

record ('ts, 'h) H5MDReader =
  cls_name :: string
  filename :: string
  n_atoms :: "int option"
  n_frames :: "int option"
  trjfile :: "unit option"
  ts :: 'ts
  h5mdfile :: 'h

text \<open>
  \<^verbatim>\<open>_read_frame(self, frame)\<close>: the result is the raised exception or the time step,
  paired with the reader after the call.
\<close>

definition read_frame ::
  "('ts, 'h) H5MDReader \<Rightarrow> int \<Rightarrow> (error + 'ts) \<times> ('ts, 'h) H5MDReader" where
  "read_frame self frame =
     (Inl (TypeError (cls_name self @ '' does not support direct frame indexing.'')), self)"

section \<open>What an exception carries\<close>

text \<open>The collection of known unit names an exception holds, if it holds one: only the
  first \<^verbatim>\<open>ValueError\<close> of \<^verbatim>\<open>convert\<close> is built from \<^verbatim>\<open>unit_types.keys()\<close>.\<close>

fun known_units_carried :: "error \<Rightarrow> string set option" where
  "known_units_carried (ValueError (Units_must_be_one_of ks a b)) = Some ks"
| "known_units_carried e = None"

section \<open>The values section 4.1 of the specification prescribes\<close>

text \<open>
  The specification lists each scale factor as a literal or as an expression over
  literals. These tables follow its words, not the source: \<^verbatim>\<open>nm\<close> is the literal
  \<^verbatim>\<open>0.1\<close>, \<^verbatim>\<open>ns\<close> is \<^verbatim>\<open>1e-3\<close>, \<^verbatim>\<open>second\<close> is \<^verbatim>\<open>1e-12\<close>, \<^verbatim>\<open>nm^{-3}\<close> is
  \<^verbatim>\<open>1000.0\<close>, and the water factors are \<^verbatim>\<open>1/(1e-24 * 6.02214179e+23 * rho / 18.016)\<close>.
\<close>

definition spec_water_factor :: "rat \<Rightarrow> error + float64" where
  "spec_water_factor rho =
     and_then (float_div (float_mul (float_mul (float_literal 1 (- 24))
                 (float_literal 6.02214179 23)) (float_literal rho 0)) (float_literal 18.016 0))
       (\<lambda>d. int_div_float 1 d)"

definition spec_length :: "(string \<times> (error + float64)) list" where
  "spec_length =
     [(''Angstrom'', Inr (float_literal 1.0 0)),
      (''A'', Inr (float_literal 1.0 0)),
      (A_ring, Inr (float_literal 1.0 0)),
      (''nm'', Inr (float_literal 0.1 0)),
      (''nanometer'', Inr (float_literal 0.1 0))]"

definition spec_time :: "(string \<times> (error + float64)) list" where
  "spec_time =
     [(''ps'', Inr (float_literal 1.0 0)),
      (''ns'', Inr (float_literal 1 (- 3))),
      (''second'', Inr (float_literal 1 (- 12))),
      (''AKMA'', int_div_float 1 (float_literal 4.888821 (- 2)))]"

definition spec_density :: "(string \<times> (error + float64)) list" where
  "spec_density =
     [(''Angstrom^{-3}'', Inr (float_literal 1.0 0)),
      (''A^{-3}'', Inr (float_literal 1.0 0)),
      (A_ring @ ''^{-3}'', Inr (float_literal 1.0 0)),
      (''nm^{-3}'', Inr (float_literal 1000.0 0)),
      (''nanometer^{-3}'', Inr (float_literal 1000.0 0)),
      (''Molar'', int_div_float 1
         (float_mul (float_literal 1 (- 27)) (float_literal 6.02214179 23))),
      (''SPC'', spec_water_factor 0.985),
      (''TIP3P'', spec_water_factor 1.002),
      (''TIP4P'', spec_water_factor 1.001),
      (''water'', spec_water_factor 0.997)]"

section \<open>Rounding to the nearest double\<close>

text \<open>
  \<open>ilog2\<close> brackets a positive rational between consecutive powers of two, so the
  exponent of the last place is known from such a bracket, and a rational within half a
  unit in the last place of \<open>n \<times> 2\<^sup>e\<close> rounds to it (\<open>round64_eqI\<close>). In the normal range
  the relative rounding error is at most \<open>2\<^sup>-\<^sup>5\<^sup>3\<close>.
\<close>

lemma pow2_less_iff: "(2::rat) powi m < 2 powi n \<longleftrightarrow> m < n"
proof
  assume lt: "(2::rat) powi m < 2 powi n"
  show "m < n"
  proof (rule ccontr)
    assume "\<not> m < n"
    then have "(2::rat) powi n \<le> 2 powi m" by (intro power_int_increasing) auto
    with lt show False by simp
  qed
next
  assume "m < n"
  then show "(2::rat) powi m < 2 powi n" by (intro power_int_strict_increasing) auto
qed

lemma pow2_add: "(2::rat) powi (m + n) = 2 powi m * 2 powi n"
  by (rule power_int_add) simp

lemma pow2_diff: "(2::rat) powi (m - n) = 2 powi m / 2 powi n"
  by (rule power_int_diff) simp

lemma bitlen_bounds_rat:
  assumes "0 < (a::int)"
  shows "(2::rat) powi (bitlen a - 1) \<le> of_int a" and "of_int a < (2::rat) powi bitlen a"
proof -
  from bitlen_bounds[OF assms] have lo: "2 ^ nat (bitlen a - 1) \<le> a" and hi: "a < 2 ^ nat (bitlen a)"
    by auto
  from assms have ge: "1 \<le> bitlen a" by (auto simp: bitlen_alt_def)
  have "(of_int (2 ^ nat (bitlen a - 1)) :: rat) \<le> of_int a"
    using lo by (simp only: of_int_le_iff)
  then show "(2::rat) powi (bitlen a - 1) \<le> of_int a"
    using ge by (simp add: power_int_nonneg_exp)
  have "(of_int a :: rat) < of_int (2 ^ nat (bitlen a))"
    using hi by (simp only: of_int_less_iff)
  then show "of_int a < (2::rat) powi bitlen a"
    using ge by (simp add: power_int_nonneg_exp)
qed

lemma ilog2_bounds:
  assumes "0 < q"
  shows "2 powi ilog2 q \<le> q" and "q < 2 powi (ilog2 q + 1)"
proof -
  obtain a b where ab: "quotient_of q = (a, b)" by (cases "quotient_of q")
  then have bpos: "0 < b" and q: "q = of_int a / of_int b"
    by (auto dest: quotient_of_denom_pos quotient_of_div)
  from assms q bpos have apos: "0 < a"
    by (simp add: zero_less_divide_iff)
  define k where "k = bitlen a - bitlen b"
  have bpos': "(0::rat) < of_int b" using bpos by simp
  have "q < 2 powi bitlen a / of_int b"
    unfolding q using bitlen_bounds_rat(2)[OF apos] bpos' by (simp add: divide_strict_right_mono)
  also have "\<dots> \<le> 2 powi bitlen a / 2 powi (bitlen b - 1)"
    using bitlen_bounds_rat(1)[OF bpos]
    by (intro divide_left_mono) (auto intro!: mult_pos_pos bpos')
  also have "\<dots> = 2 powi (k + 1)"
    by (simp add: k_def pow2_diff pow2_add)
  finally have hi: "q < 2 powi (k + 1)" .
  have "2 powi (k - 1) = 2 powi (bitlen a - 1) / (2::rat) powi bitlen b"
    by (simp add: k_def pow2_diff)
  also have "\<dots> \<le> of_int a / 2 powi bitlen b"
    using bitlen_bounds_rat(1)[OF apos] by (simp add: divide_right_mono)
  also have "\<dots> < of_int a / of_int b"
    using bitlen_bounds_rat(2)[OF bpos] apos bpos'
    by (intro divide_strict_left_mono) (auto intro!: mult_pos_pos)
  finally have lo: "2 powi (k - 1) < q" unfolding q .
  have il: "ilog2 q = (if 2 powi k \<le> q then k else k - 1)"
    by (simp add: ilog2_def ab k_def Let_def)
  show "2 powi ilog2 q \<le> q" using lo by (simp add: il)
  show "q < 2 powi (ilog2 q + 1)" using hi by (simp add: il)
qed

lemma ilog2_unique:
  assumes "2 powi k \<le> q" and "q < 2 powi (k + 1)"
  shows "ilog2 q = k"
proof -
  have qpos: "0 < q" using assms(1) by (rule less_le_trans[rotated]) simp
  note b = ilog2_bounds[OF qpos]
  have "(2::rat) powi k < 2 powi (ilog2 q + 1)" using assms(1) b(2) by simp
  then have "k < ilog2 q + 1" by (simp only: pow2_less_iff)
  moreover have "(2::rat) powi ilog2 q < 2 powi (k + 1)" using assms(2) b(1) by simp
  then have "ilog2 q < k + 1" by (simp only: pow2_less_iff)
  ultimately show ?thesis by simp
qed

lemma round_half_even_near:
  assumes "\<bar>x - of_int n\<bar> < 1/2"
  shows "round_half_even x = n"
proof -
  from assms have lo: "of_int n - 1/2 < x" and hi: "x < of_int n + 1/2" by linarith+
  have "\<lfloor>x\<rfloor> = n \<or> \<lfloor>x\<rfloor> = n - 1"
  proof -
    have "of_int (n - 1) \<le> x" using lo by simp
    then have "n - 1 \<le> \<lfloor>x\<rfloor>" by (simp only: le_floor_iff)
    moreover have "x < of_int (n + 1)" using hi by simp
    then have "\<lfloor>x\<rfloor> < n + 1" by (simp only: floor_less_iff)
    ultimately show ?thesis by auto
  qed
  then show ?thesis
  proof
    assume f: "\<lfloor>x\<rfloor> = n"
    then have "x - of_int \<lfloor>x\<rfloor> < 1/2" using hi by simp
    then show ?thesis by (simp add: round_half_even_def Let_def f)
  next
    assume f: "\<lfloor>x\<rfloor> = n - 1"
    then have "1/2 < x - of_int \<lfloor>x\<rfloor>" using lo by simp
    then show ?thesis by (simp add: round_half_even_def Let_def f)
  qed
qed

lemma round_half_even_error: "\<bar>of_int (round_half_even x) - x\<bar> \<le> 1/2"
proof -
  have "of_int \<lfloor>x\<rfloor> \<le> x" "x < of_int \<lfloor>x\<rfloor> + 1" by linarith+
  then show ?thesis
    by (auto simp: round_half_even_def Let_def abs_le_iff)
qed

lemma round_magnitude_error:
  "\<bar>round_magnitude q - q\<bar> \<le> 2 powi ulp_exponent q / 2"
proof (cases "q = 0")
  case True
  then show ?thesis by (simp add: round_magnitude_def)
next
  case False
  define u :: rat where "u = 2 powi ulp_exponent q"
  have upos: "0 < u" by (simp add: u_def)
  have "round_magnitude q - q = (of_int (round_half_even (q / u)) - q / u) * u"
    using False upos by (simp add: round_magnitude_def u_def[symmetric] left_diff_distrib)
  then have "\<bar>round_magnitude q - q\<bar> = \<bar>of_int (round_half_even (q / u)) - q / u\<bar> * u"
    using upos by (simp add: abs_mult)
  also have "\<dots> \<le> 1/2 * u"
    using round_half_even_error[of "q / u"] upos by (intro mult_right_mono) auto
  finally show ?thesis by (simp add: u_def)
qed

lemma round_magnitude_eqI:
  assumes "2 powi k \<le> q" and "q < 2 powi (k + 1)"
    and "\<bar>q / 2 powi (max (k - 52) (- 1074)) - of_int n\<bar> < 1/2"
  shows "round_magnitude q = of_int n * 2 powi (max (k - 52) (- 1074))"
proof -
  have "0 < q" using assms(1) by (rule less_le_trans[rotated]) simp
  then have "q \<noteq> 0" by simp
  moreover have "ulp_exponent q = max (k - 52) (- 1074)"
    by (simp add: ulp_exponent_def ilog2_unique[OF assms(1,2)])
  ultimately show ?thesis
    using round_half_even_near[OF assms(3)] by (simp add: round_magnitude_def)
qed

lemma round64_eqI:
  assumes "2 powi k \<le> q" and "q < 2 powi (k + 1)"
    and "\<bar>q / 2 powi (max (k - 52) (- 1074)) - of_int n\<bar> < 1/2"
    and "of_int n * 2 powi (max (k - 52) (- 1074)) < (2::rat) ^ 1024"
  shows "round64 s q = Finite s (of_int n * 2 powi (max (k - 52) (- 1074)))"
  using assms(4) by (simp add: round64_def round_magnitude_eqI[OF assms(1-3)] Let_def)

lemma round_magnitude_rel_error:
  assumes "2 powi (- 1022) \<le> q"
  shows "\<bar>round_magnitude q - q\<bar> \<le> q * 2 powi (- 53)"
proof -
  have qpos: "0 < q" using assms by (rule less_le_trans[rotated]) simp
  have "(2::rat) powi (- 1022) < 2 powi (ilog2 q + 1)"
    using assms ilog2_bounds(2)[OF qpos] by simp
  then have "- 1022 < ilog2 q + 1" by (simp only: pow2_less_iff)
  then have "- 1022 \<le> ilog2 q" by simp
  then have e: "ulp_exponent q = ilog2 q - 52" by (simp add: ulp_exponent_def)
  have "\<bar>round_magnitude q - q\<bar> \<le> 2 powi (ilog2 q - 52) / 2"
    using round_magnitude_error[of q] by (simp add: e)
  also have "\<dots> = 2 powi ilog2 q * 2 powi (- 53)"
    by (simp add: pow2_diff power_int_minus_divide)
  also have "\<dots> \<le> q * 2 powi (- 53)"
    using ilog2_bounds(1)[OF qpos] by (intro mult_right_mono) auto
  finally show ?thesis .
qed

text \<open>
  The literals of the module and of the specification, and each arithmetic step of the
  module body, as the doubles they denote: mantissa over a power of two.
\<close>

lemma float_of_int_1: "float_of_int 1 = Inr (Finite False 1)"
  using round64_eqI [of 0 1 4503599627370496 False]
  by (simp add: float_of_int_def)

lemma float_of_int_10: "float_of_int 10 = Inr (Finite False 10)"
  using round64_eqI [of 3 10 5629499534213120 False]
  by (simp add: float_of_int_def)

lemma literal_1_0: "float_literal 1.0 0 = Finite False 1"
  using round64_eqI [of "0" "1" 4503599627370496 False]
  by (simp add: float_literal_def)

lemma literal_N_Avogadro: "float_literal 6.02214179 23 = Finite False 602214178999999989284864"
  using round64_eqI [of "78" "602214179000000000000000" 8973690554499626 False]
  by (simp add: float_literal_def)

lemma literal_0_997: "float_literal 0.997 0 = Finite False (8980177656976769 / 2 ^ 53)"
  using round64_eqI [of "(- 1)" "997 / 1000" 8980177656976769 False]
  by (simp add: float_literal_def)

lemma literal_0_985: "float_literal 0.985 0 = Finite False (8872091265919877 / 2 ^ 53)"
  using round64_eqI [of "(- 1)" "197 / 200" 8872091265919877 False]
  by (simp add: float_literal_def)

lemma literal_1_002: "float_literal 1.002 0 = Finite False (4512606826625237 / 2 ^ 52)"
  using round64_eqI [of "0" "501 / 500" 4512606826625237 False]
  by (simp add: float_literal_def)

lemma literal_1_001: "float_literal 1.001 0 = Finite False (2254051613498933 / 2 ^ 51)"
  using round64_eqI [of "0" "1001 / 1000" 4508103226997866 False]
  by (simp add: float_literal_def)

lemma literal_18_016: "float_literal 18.016 0 = Finite False (2535526590209589 / 2 ^ 47)"
  using round64_eqI [of "4" "2252 / 125" 5071053180419178 False]
  by (simp add: float_literal_def)

lemma literal_1e_3: "float_literal 1 (- 3) = Finite False (1152921504606847 / 2 ^ 60)"
  using round64_eqI [of "(- 10)" "1 / 1000" 4611686018427388 False]
  by (simp add: float_literal_def)

lemma literal_1e_27: "float_literal 1 (- 27) = Finite False (348449143727041 / 2 ^ 138)"
  using round64_eqI [of "(- 90)" "1 / 1000000000000000000000000000" 5575186299632656 False]
  by (simp add: float_literal_def)

lemma literal_1e_24: "float_literal 1 (- 24) = Finite False (5444517870735015 / 2 ^ 132)"
  using round64_eqI [of "(- 80)" "1 / 1000000000000000000000000" 5444517870735015 False]
  by (simp add: float_literal_def)

lemma literal_1e3: "float_literal 1 3 = Finite False 1000"
  using round64_eqI [of "9" "1000" 8796093022208000 False]
  by (simp add: float_literal_def)

lemma literal_1e12: "float_literal 1 12 = Finite False 1000000000000"
  using round64_eqI [of "39" "1000000000000" 8192000000000000 False]
  by (simp add: float_literal_def)

lemma literal_4_888821e_2: "float_literal 4.888821 (- 2) = Finite False (3522766789420969 / 2 ^ 56)"
  using round64_eqI [of "(- 5)" "4888821 / 100000000" 7045533578841938 False]
  by (simp add: float_literal_def)

lemma literal_0_1: "float_literal 0.1 0 = Finite False (3602879701896397 / 2 ^ 55)"
  using round64_eqI [of "(- 4)" "1 / 10" 7205759403792794 False]
  by (simp add: float_literal_def)

lemma literal_1000_0: "float_literal 1000.0 0 = Finite False 1000"
  using round64_eqI [of "9" "1000" 8796093022208000 False]
  by (simp add: float_literal_def)

lemma literal_1e_12: "float_literal 1 (- 12) = Finite False (4951760157141521 / 2 ^ 92)"
  using round64_eqI [of "(- 40)" "1 / 1000000000000" 4951760157141521 False]
  by (simp add: float_literal_def)

lemma literal_10_0: "float_literal 10.0 0 = Finite False 10"
  using round64_eqI [of "3" "10" 5629499534213120 False]
  by (simp add: float_literal_def)

lemma div_1_10:
  "float_div (Finite False 1) (Finite False 10) = Inr (Finite False (3602879701896397 / 2 ^ 55))"
  using round64_eqI [of "(- 4)" "1 / 10" 7205759403792794 False]
  by (simp add: float_div_def is_zero_def)

lemma div_1_1:
  "float_div (Finite False 1) (Finite False 1) = Inr (Finite False 1)"
  using round64_eqI [of "0" "1" 4503599627370496 False]
  by (simp add: float_div_def is_zero_def)

lemma div_1_1e_3:
  "float_div (Finite False 1) (Finite False (1152921504606847 / 2 ^ 60)) = Inr (Finite False 1000)"
  using round64_eqI [of "9" "1152921504606846976 / 1152921504606847" 8796093022208000 False]
  by (simp add: float_div_def is_zero_def)

lemma mul_1e_27_N_Avogadro:
  "float_mul (Finite False (348449143727041 / 2 ^ 138))
     (Finite False 602214178999999989284864) =
   Finite False (5554445418786057 / 2 ^ 63)"
  using round64_eqI
    [of "(- 11)" "1563437394893415213977240293333 / 2596148429267413814265248164610048"
        5554445418786057 False]
  by simp

lemma div_1_molar:
  "float_div (Finite False 1)
     (Finite False (5554445418786057 / 2 ^ 63)) =
   Inr (Finite False (1825781700460427 / 2 ^ 40))"
  using round64_eqI [of "10" "9223372036854775808 / 5554445418786057" 7303126801841708 False]
  by (simp add: float_div_def is_zero_def)

lemma mul_1e_24_N_Avogadro:
  "float_mul (Finite False (5444517870735015 / 2 ^ 132))
     (Finite False 602214178999999989284864) =
   Finite False (2712131552141629 / 2 ^ 52)"
  using round64_eqI
    [of "(- 1)" "24428709295209609914116081302195 / 40564819207303340847894502572032"
        5424263104283258 False]
  by simp

lemma mul_rho_SPC:
  "float_mul (Finite False (2712131552141629 / 2 ^ 52))
     (Finite False (8872091265919877 / 2 ^ 53)) =
   Finite False (5342899157719009 / 2 ^ 53)"
  using round64_eqI
    [of "(- 1)" "24062278655781466129560070259633 / 40564819207303340847894502572032"
        5342899157719009 False]
  by simp

lemma div_M_SPC:
  "float_div (Finite False (5342899157719009 / 2 ^ 53))
     (Finite False (2535526590209589 / 2 ^ 47)) =
   Inr (Finite False (4745025894954715 / 2 ^ 57))"
  using round64_eqI [of "(- 5)" "5342899157719009 / 162273701773413696" 4745025894954715 False]
  by (simp add: float_div_def is_zero_def)

lemma div_1_SPC:
  "float_div (Finite False 1)
     (Finite False (4745025894954715 / 2 ^ 57)) =
   Inr (Finite False (8548914190423081 / 2 ^ 48))"
  using round64_eqI [of "4" "144115188075855872 / 4745025894954715" 8548914190423081 False]
  by (simp add: float_div_def is_zero_def)

lemma mul_rho_TIP3P:
  "float_mul (Finite False (2712131552141629 / 2 ^ 52))
     (Finite False (4512606826625237 / 2 ^ 52)) =
   Finite False (5435111630491825 / 2 ^ 53)"
  using round64_eqI
    [of "(- 1)" "12238783356900014939425929691073 / 20282409603651670423947251286016"
        5435111630491825 False]
  by simp

lemma div_M_TIP3P:
  "float_div (Finite False (5435111630491825 / 2 ^ 53))
     (Finite False (2535526590209589 / 2 ^ 47)) =
   Inr (Finite False (4826919742887945 / 2 ^ 57))"
  using round64_eqI [of "(- 5)" "5435111630491825 / 162273701773413696" 4826919742887945 False]
  by (simp add: float_div_def is_zero_def)

lemma div_1_TIP3P:
  "float_div (Finite False 1)
     (Finite False (4826919742887945 / 2 ^ 57)) =
   Inr (Finite False (8403872732102527 / 2 ^ 48))"
  using round64_eqI [of "4" "144115188075855872 / 4826919742887945" 8403872732102527 False]
  by (simp add: float_div_def is_zero_def)

lemma mul_rho_TIP4P:
  "float_mul (Finite False (2712131552141629 / 2 ^ 52))
     (Finite False (2254051613498933 / 2 ^ 51)) =
   Finite False (5429687367387541 / 2 ^ 53)"
  using round64_eqI
    [of "(- 1)" "6113284501126204383602256381857 / 10141204801825835211973625643008"
        5429687367387541 False]
  by simp

lemma div_M_TIP4P:
  "float_div (Finite False (5429687367387541 / 2 ^ 53))
     (Finite False (2535526590209589 / 2 ^ 47)) =
   Inr (Finite False (4822102457715401 / 2 ^ 57))"
  using round64_eqI [of "(- 5)" "5429687367387541 / 162273701773413696" 4822102457715401 False]
  by (simp add: float_div_def is_zero_def)

lemma div_1_TIP4P:
  "float_div (Finite False 1)
     (Finite False (4822102457715401 / 2 ^ 57)) =
   Inr (Finite False (8412268209357377 / 2 ^ 48))"
  using round64_eqI [of "4" "144115188075855872 / 4822102457715401" 8412268209357377 False]
  by (simp add: float_div_def is_zero_def)

lemma mul_rho_water:
  "float_mul (Finite False (2712131552141629 / 2 ^ 52))
     (Finite False (8980177656976769 / 2 ^ 53)) =
   Finite False (675998789371301 / 2 ^ 50)"
  using round64_eqI
    [of "(- 1)" "24355423167323981717295450816701 / 40564819207303340847894502572032"
        5407990314970408 False]
  by simp

lemma div_M_water:
  "float_div (Finite False (675998789371301 / 2 ^ 50))
     (Finite False (2535526590209589 / 2 ^ 47)) =
   Inr (Finite False (2401416658512615 / 2 ^ 56))"
  using round64_eqI [of "(- 5)" "675998789371301 / 20284212721676712" 4802833317025230 False]
  by (simp add: float_div_def is_zero_def)

lemma div_1_water:
  "float_div (Finite False 1)
     (Finite False (2401416658512615 / 2 ^ 56)) =
   Inr (Finite False (1055752316645779 / 2 ^ 45))"
  using round64_eqI [of "4" "72057594037927936 / 2401416658512615" 8446018533166232 False]
  by (simp add: float_div_def is_zero_def)

lemma div_1_1e3:
  "float_div (Finite False 1) (Finite False 1000) = Inr (Finite False (1152921504606847 / 2 ^ 60))"
  using round64_eqI [of "(- 10)" "1 / 1000" 4611686018427388 False]
  by (simp add: float_div_def is_zero_def)

lemma div_1_1e12:
  "float_div (Finite False 1)
     (Finite False 1000000000000) =
   Inr (Finite False (4951760157141521 / 2 ^ 92))"
  using round64_eqI [of "(- 40)" "1 / 1000000000000" 4951760157141521 False]
  by (simp add: float_div_def is_zero_def)

lemma div_1_akma:
  "float_div (Finite False 1)
     (Finite False (3522766789420969 / 2 ^ 56)) =
   Inr (Finite False (5757522656498489 / 2 ^ 48))"
  using round64_eqI [of "4" "72057594037927936 / 3522766789420969" 5757522656498489 False]
  by (simp add: float_div_def is_zero_def)

lemmas float_values =
  float_of_int_1 [simplified]
  float_of_int_10 [simplified]
  literal_1_0 [simplified]
  literal_N_Avogadro [simplified]
  literal_0_997 [simplified]
  literal_0_985 [simplified]
  literal_1_002 [simplified]
  literal_1_001 [simplified]
  literal_18_016 [simplified]
  literal_1e_3 [simplified]
  literal_1e_27 [simplified]
  literal_1e_24 [simplified]
  literal_1e3 [simplified]
  literal_1e12 [simplified]
  literal_4_888821e_2 [simplified]
  literal_0_1 [simplified]
  literal_1000_0 [simplified]
  literal_1e_12 [simplified]
  literal_10_0 [simplified]
  div_1_10 [simplified]
  div_1_1 [simplified]
  div_1_1e_3 [simplified]
  mul_1e_27_N_Avogadro [simplified]
  div_1_molar [simplified]
  mul_1e_24_N_Avogadro [simplified]
  mul_rho_SPC [simplified]
  div_M_SPC [simplified]
  div_1_SPC [simplified]
  mul_rho_TIP3P [simplified]
  div_M_TIP3P [simplified]
  div_1_TIP3P [simplified]
  mul_rho_TIP4P [simplified]
  div_M_TIP4P [simplified]
  div_1_TIP4P [simplified]
  mul_rho_water [simplified]
  div_M_water [simplified]
  div_1_water [simplified]
  div_1_1e3 [simplified]
  div_1_1e12 [simplified]
  div_1_akma [simplified]

lemmas mixed_division = int_div_float_def float_div_int_def and_then_def

lemma lengthUnit_factor_rhs_value:
  "lengthUnit_factor_rhs = Inr
     [(''Angstrom'', Finite False 1),
       (''A'', Finite False 1),
       (A_ring, Finite False 1),
       (''nm'', Finite False (3602879701896397 / 2 ^ 55)),
       (''nanometer'', Finite False (3602879701896397 / 2 ^ 55))]"
  by (simp add: lengthUnit_factor_rhs_def A_ring_def float_values mixed_division)

lemma water_rhs_value:
  "water_rhs = Inr
     [(''exp'', Finite False (8980177656976769 / 2 ^ 53)),
       (''SPC'', Finite False (8872091265919877 / 2 ^ 53)),
       (''TIP3P'', Finite False (4512606826625237 / 2 ^ 52)),
       (''TIP4P'', Finite False (2254051613498933 / 2 ^ 51)),
       (''MolarMass'', Finite False (2535526590209589 / 2 ^ 47))]"
  by (simp add: water_rhs_def float_values mixed_division)

lemma water_density_factor_SPC:
  "water_density_factor (Finite False 602214178999999989284864)
     [(''exp'', Finite False (8980177656976769 / 2 ^ 53)),
       (''SPC'', Finite False (8872091265919877 / 2 ^ 53)),
       (''TIP3P'', Finite False (4512606826625237 / 2 ^ 52)),
       (''TIP4P'', Finite False (2254051613498933 / 2 ^ 51)),
       (''MolarMass'', Finite False (2535526590209589 / 2 ^ 47))] ''SPC'' =
   Inr (Finite False (8548914190423081 / 2 ^ 48))"
  by (simp add: water_density_factor_def and_then_def getitem_def float_values mixed_division)

lemma water_density_factor_TIP3P:
  "water_density_factor (Finite False 602214178999999989284864)
     [(''exp'', Finite False (8980177656976769 / 2 ^ 53)),
       (''SPC'', Finite False (8872091265919877 / 2 ^ 53)),
       (''TIP3P'', Finite False (4512606826625237 / 2 ^ 52)),
       (''TIP4P'', Finite False (2254051613498933 / 2 ^ 51)),
       (''MolarMass'', Finite False (2535526590209589 / 2 ^ 47))] ''TIP3P'' =
   Inr (Finite False (8403872732102527 / 2 ^ 48))"
  by (simp add: water_density_factor_def and_then_def getitem_def float_values mixed_division)

lemma water_density_factor_TIP4P:
  "water_density_factor (Finite False 602214178999999989284864)
     [(''exp'', Finite False (8980177656976769 / 2 ^ 53)),
       (''SPC'', Finite False (8872091265919877 / 2 ^ 53)),
       (''TIP3P'', Finite False (4512606826625237 / 2 ^ 52)),
       (''TIP4P'', Finite False (2254051613498933 / 2 ^ 51)),
       (''MolarMass'', Finite False (2535526590209589 / 2 ^ 47))] ''TIP4P'' =
   Inr (Finite False (8412268209357377 / 2 ^ 48))"
  by (simp add: water_density_factor_def and_then_def getitem_def float_values mixed_division)

lemma water_density_factor_water:
  "water_density_factor (Finite False 602214178999999989284864)
     [(''exp'', Finite False (8980177656976769 / 2 ^ 53)),
       (''SPC'', Finite False (8872091265919877 / 2 ^ 53)),
       (''TIP3P'', Finite False (4512606826625237 / 2 ^ 52)),
       (''TIP4P'', Finite False (2254051613498933 / 2 ^ 51)),
       (''MolarMass'', Finite False (2535526590209589 / 2 ^ 47))] ''exp'' =
   Inr (Finite False (1055752316645779 / 2 ^ 45))"
  by (simp add: water_density_factor_def and_then_def getitem_def float_values mixed_division)

lemma densityUnit_factor_rhs_value:
  "densityUnit_factor_rhs (Finite False 602214178999999989284864)
     [(''exp'', Finite False (8980177656976769 / 2 ^ 53)),
       (''SPC'', Finite False (8872091265919877 / 2 ^ 53)),
       (''TIP3P'', Finite False (4512606826625237 / 2 ^ 52)),
       (''TIP4P'', Finite False (2254051613498933 / 2 ^ 51)),
       (''MolarMass'', Finite False (2535526590209589 / 2 ^ 47))] = Inr
     [(''Angstrom^{-3}'', Finite False 1),
       (''A^{-3}'', Finite False 1),
       (A_ring @ ''^{-3}'', Finite False 1),
       (''nm^{-3}'', Finite False 1000),
       (''nanometer^{-3}'', Finite False 1000),
       (''Molar'', Finite False (1825781700460427 / 2 ^ 40)),
       (''SPC'', Finite False (8548914190423081 / 2 ^ 48)),
       (''TIP3P'', Finite False (8403872732102527 / 2 ^ 48)),
       (''TIP4P'', Finite False (8412268209357377 / 2 ^ 48)),
       (''water'', Finite False (1055752316645779 / 2 ^ 45))]"
  by (simp add: densityUnit_factor_rhs_def A_ring_def float_values mixed_division
      water_density_factor_SPC [simplified] water_density_factor_TIP3P [simplified]
      water_density_factor_TIP4P [simplified] water_density_factor_water [simplified])

lemma timeUnit_factor_rhs_value:
  "timeUnit_factor_rhs = Inr
     [(''ps'', Finite False 1),
       (''ns'', Finite False (1152921504606847 / 2 ^ 60)),
       (''second'', Finite False (4951760157141521 / 2 ^ 92)),
       (''AKMA'', Finite False (5757522656498489 / 2 ^ 48))]"
  by (simp add: timeUnit_factor_rhs_def float_values mixed_division)

section \<open>The module body runs\<close>

text \<open>No assignment of the module body raises, so \<open>units\<close> is the state the import leaves
  behind; its tables are given with their values.\<close>

lemma N_Avogadro_rhs_value: "N_Avogadro_rhs = Finite False 602214178999999989284864"
  by (simp only: N_Avogadro_rhs_def literal_N_Avogadro)

lemmas rhs_values =
  lengthUnit_factor_rhs_value [simplified] water_rhs_value [simplified] N_Avogadro_rhs_value
  densityUnit_factor_rhs_value [simplified] timeUnit_factor_rhs_value [simplified]

lemma module_body_runs: "module_body = Inr units"
proof -
  have "\<not> isl module_body"
    by (simp add: module_body_def and_then_def rhs_values conversion_factor_rhs_def)
  then show ?thesis
    by (simp add: units_def)
qed

lemma units_value:
  "units = \<lparr>lengthUnit_factor = projr lengthUnit_factor_rhs,
     N_Avogadro = N_Avogadro_rhs,
     water = projr water_rhs,
     densityUnit_factor = projr (densityUnit_factor_rhs N_Avogadro_rhs (projr water_rhs)),
     timeUnit_factor = projr timeUnit_factor_rhs,
     conversion_factor =
       [(''length'', projr lengthUnit_factor_rhs),
        (''density'', projr (densityUnit_factor_rhs N_Avogadro_rhs (projr water_rhs))),
        (''time'', projr timeUnit_factor_rhs)],
     unit_types = unit_types_loop
       [(''length'', projr lengthUnit_factor_rhs),
        (''density'', projr (densityUnit_factor_rhs N_Avogadro_rhs (projr water_rhs))),
        (''time'', projr timeUnit_factor_rhs)]\<rparr>"
  by (simp add: units_def module_body_def and_then_def rhs_values conversion_factor_rhs_def
      items_def)

lemma units_lengthUnit_factor:
  "lengthUnit_factor units =
   [(''Angstrom'', Finite False 1),
    (''A'', Finite False 1),
    (A_ring, Finite False 1),
    (''nm'', Finite False (3602879701896397 / 2 ^ 55)),
    (''nanometer'', Finite False (3602879701896397 / 2 ^ 55))]"
  by (simp add: units_value rhs_values)

lemma units_densityUnit_factor:
  "densityUnit_factor units =
   [(''Angstrom^{-3}'', Finite False 1),
    (''A^{-3}'', Finite False 1),
    (A_ring @ ''^{-3}'', Finite False 1),
    (''nm^{-3}'', Finite False 1000),
    (''nanometer^{-3}'', Finite False 1000),
    (''Molar'', Finite False (1825781700460427 / 2 ^ 40)),
    (''SPC'', Finite False (8548914190423081 / 2 ^ 48)),
    (''TIP3P'', Finite False (8403872732102527 / 2 ^ 48)),
    (''TIP4P'', Finite False (8412268209357377 / 2 ^ 48)),
    (''water'', Finite False (1055752316645779 / 2 ^ 45))]"
  by (simp add: units_value rhs_values)

lemma units_timeUnit_factor:
  "timeUnit_factor units =
   [(''ps'', Finite False 1),
    (''ns'', Finite False (1152921504606847 / 2 ^ 60)),
    (''second'', Finite False (4951760157141521 / 2 ^ 92)),
    (''AKMA'', Finite False (5757522656498489 / 2 ^ 48))]"
  by (simp add: units_value rhs_values)

lemma units_conversion_factor:
  "conversion_factor units =
   [(''length'', lengthUnit_factor units), (''density'', densityUnit_factor units),
    (''time'', timeUnit_factor units)]"
  by (simp add: units_value)

lemma units_unit_types:
  "unit_types units =
   [(''Angstrom'', ''length''),
    (''A'', ''length''),
    (A_ring, ''length''),
    (''nm'', ''length''),
    (''nanometer'', ''length''),
    (''Angstrom^{-3}'', ''density''),
    (''A^{-3}'', ''density''),
    (A_ring @ ''^{-3}'', ''density''),
    (''nm^{-3}'', ''density''),
    (''nanometer^{-3}'', ''density''),
    (''Molar'', ''density''),
    (''SPC'', ''density''),
    (''TIP3P'', ''density''),
    (''TIP4P'', ''density''),
    (''water'', ''density''),
    (''ps'', ''time''),
    (''ns'', ''time''),
    (''second'', ''time''),
    (''AKMA'', ''time'')]"
  by (simp add: units_value rhs_values unit_types_loop_def keys_def A_ring_def)

section \<open>The registry\<close>

text \<open>The keys of the three tables, and the agreement of \<^verbatim>\<open>unit_types\<close> with them in both
  directions.\<close>

lemma table_cases:
  assumes "map_of (conversion_factor units) T = Some tab"
  shows "(T = ''length'' \<and> tab = lengthUnit_factor units)
       \<or> (T = ''density'' \<and> tab = densityUnit_factor units)
       \<or> (T = ''time'' \<and> tab = timeUnit_factor units)"
  using map_of_SomeD[OF assms] by (auto simp: units_conversion_factor)

lemma map_of_keys: "map_of d k = Some v \<Longrightarrow> k \<in> set (keys d)"
  by (auto simp: keys_def dest!: map_of_SomeD intro: rev_image_eqI)

lemma map_of_None_keys: "map_of d k = None \<longleftrightarrow> k \<notin> set (keys d)"
  by (simp add: keys_def map_of_eq_None_iff)

lemma keys_length:
  "set (keys (lengthUnit_factor units)) = {''Angstrom'', ''A'', A_ring, ''nm'', ''nanometer''}"
  by (simp add: units_lengthUnit_factor keys_def)

lemma keys_density:
  "set (keys (densityUnit_factor units)) =
     {''Angstrom^{-3}'', ''A^{-3}'', A_ring @ ''^{-3}'', ''nm^{-3}'', ''nanometer^{-3}'',
      ''Molar'', ''SPC'', ''TIP3P'', ''TIP4P'', ''water''}"
  by (simp add: units_densityUnit_factor keys_def)

lemma keys_time:
  "set (keys (timeUnit_factor units)) = {''ps'', ''ns'', ''second'', ''AKMA''}"
  by (simp add: units_timeUnit_factor keys_def)

lemma unit_types_length:
  assumes "u \<in> set (keys (lengthUnit_factor units))"
  shows "map_of (unit_types units) u = Some ''length''"
  using assms unfolding keys_length
  by (elim insertE emptyE; hypsubst; simp add: units_unit_types A_ring_def)

lemma unit_types_density:
  assumes "u \<in> set (keys (densityUnit_factor units))"
  shows "map_of (unit_types units) u = Some ''density''"
  using assms unfolding keys_density
  by (elim insertE emptyE; hypsubst; simp add: units_unit_types A_ring_def)

lemma unit_types_time:
  assumes "u \<in> set (keys (timeUnit_factor units))"
  shows "map_of (unit_types units) u = Some ''time''"
  using assms unfolding keys_time
  by (elim insertE emptyE; hypsubst; simp add: units_unit_types A_ring_def)

lemma table_consistent:
  assumes "map_of (conversion_factor units) T = Some tab" and "u \<in> set (keys tab)"
  shows "map_of (unit_types units) u = Some T"
  using table_cases[OF assms(1)] assms(2)
  by (auto simp: unit_types_length unit_types_density unit_types_time)

lemma keys_unit_types:
  "set (keys (unit_types units)) =
     set (keys (lengthUnit_factor units)) \<union> set (keys (densityUnit_factor units))
     \<union> set (keys (timeUnit_factor units))"
  unfolding keys_length keys_density keys_time
  by (simp add: units_unit_types keys_def A_ring_def insert_commute)

lemma unit_types_cases:
  assumes "map_of (unit_types units) u = Some T"
  shows "(T = ''length'' \<and> u \<in> set (keys (lengthUnit_factor units)))
       \<or> (T = ''density'' \<and> u \<in> set (keys (densityUnit_factor units)))
       \<or> (T = ''time'' \<and> u \<in> set (keys (timeUnit_factor units)))"
proof -
  have "u \<in> set (keys (unit_types units))" using assms by (rule map_of_keys)
  then consider "u \<in> set (keys (lengthUnit_factor units))"
    | "u \<in> set (keys (densityUnit_factor units))" | "u \<in> set (keys (timeUnit_factor units))"
    unfolding keys_unit_types by blast
  then show ?thesis
  proof cases
    case 1
    with unit_types_length[OF 1] assms show ?thesis by simp
  next
    case 2
    with unit_types_density[OF 2] assms show ?thesis by simp
  next
    case 3
    with unit_types_time[OF 3] assms show ?thesis by simp
  qed
qed

lemma unit_types_consistent:
  assumes "map_of (unit_types units) u = Some T"
  shows "\<exists>tab. map_of (conversion_factor units) T = Some tab \<and> u \<in> set (keys tab)"
  using unit_types_cases[OF assms]
  by (auto simp: units_conversion_factor)

section \<open>Rounding errors in the normal range\<close>

text \<open>
  A quotient of two scale factors between \<open>2\<^sup>-\<^sup>4\<^sup>0\<close> and \<open>2\<^sup>1\<^sup>1\<close> neither overflows nor
  underflows, so the factors there and back multiply to \<open>1\<close> up to three roundings.
\<close>

lemma round64_normal:
  assumes "2 powi (- 1022) \<le> q" and "q \<le> 2 ^ 1023"
  shows "round64 s q = Finite s (round_magnitude q)"
    and "\<bar>round_magnitude q - q\<bar> \<le> q * 2 powi (- 53)"
proof -
  have qpos: "0 < q" using assms(1) by (rule less_le_trans[rotated]) simp
  show rel: "\<bar>round_magnitude q - q\<bar> \<le> q * 2 powi (- 53)"
    using assms(1) by (rule round_magnitude_rel_error)
  have "(2::rat) powi (- 53) < 1"
    using pow2_less_iff[of "- 53" 0] by simp
  then have "q * 2 powi (- 53) < q * 1"
    using qpos by (intro mult_strict_left_mono)
  with rel have "round_magnitude q < q + q" by linarith
  also have "\<dots> \<le> 2 ^ 1023 + 2 ^ 1023" using assms(2) by (intro add_mono)
  also have "\<dots> = (2::rat) ^ Suc 1023" by (simp only: power_Suc mult_2)
  finally have "round_magnitude q < 2 ^ 1024" by simp
  then show "round64 s q = Finite s (round_magnitude q)"
    by (simp add: round64_def Let_def)
qed

lemma round64_one: "round64 False 1 = Finite False 1"
  using round64_eqI [of 0 1 4503599627370496 False] by simp

lemma float_div_self:
  assumes "q \<noteq> 0"
  shows "float_div (Finite s q) (Finite s q) = Inr (Finite False 1)"
  using assms by (simp add: float_div_def is_zero_def round64_one)

lemma quotient_range:
  assumes "2 powi (- 40) \<le> a" "a \<le> 2 powi 11" "2 powi (- 40) \<le> b" "b \<le> (2::rat) powi 11"
  shows "2 powi (- 1022) \<le> b / a" and "b / a \<le> 2 ^ 1023"
proof -
  have apos: "0 < a" using assms(1) by (rule less_le_trans[rotated]) simp
  have bpos: "0 < b" using assms(3) by (rule less_le_trans[rotated]) simp
  have "(2::rat) powi (- 1022) \<le> 2 powi (- 51)"
    by (intro power_int_increasing) auto
  also have "\<dots> = 2 powi (- 40) / 2 powi 11"
    using pow2_diff[of "- 40" 11] by simp
  also have "\<dots> \<le> b / a"
    using assms apos by (intro frac_le) auto
  finally show "2 powi (- 1022) \<le> b / a" .
  have "b / a \<le> 2 powi 11 / 2 powi (- 40)"
    using assms bpos by (intro frac_le) auto
  also have "\<dots> = 2 powi 51"
    using pow2_diff[of 11 "- 40"] by simp
  also have "\<dots> \<le> 2 powi 1023"
    by (intro power_int_increasing) auto
  finally show "b / a \<le> 2 ^ 1023" by simp
qed

lemma round_trip_bound:
  assumes "2 powi (- 40) \<le> a" "a \<le> 2 powi 11" "2 powi (- 40) \<le> b" "b \<le> (2::rat) powi 11"
  shows "\<exists>f g p. float_div (Finite False b) (Finite False a) = Inr f
           \<and> float_div (Finite False a) (Finite False b) = Inr g
           \<and> float_mul f g = Finite False p \<and> \<bar>p - 1\<bar> \<le> 2 powi (- 51)"
proof -
  have apos: "0 < a" using assms(1) by (rule less_le_trans[rotated]) simp
  have bpos: "0 < b" using assms(3) by (rule less_le_trans[rotated]) simp
  define x where "x = b / a"
  define y where "y = a / b"
  define e :: rat where "e = 2 powi (- 53)"
  define r1 where "r1 = round_magnitude x"
  define r2 where "r2 = round_magnitude y"
  define p where "p = round_magnitude (r1 * r2)"
  have xy: "x * y = 1" using apos bpos by (simp add: x_def y_def)
  have xpos: "0 < x" and ypos: "0 < y" using apos bpos by (simp_all add: x_def y_def)
  have e: "0 < e" "e < 1" by (simp_all add: e_def)
  note qx = quotient_range[OF assms, folded x_def]
  note qy = quotient_range[OF assms(3,4,1,2), folded y_def]
  have f: "float_div (Finite False b) (Finite False a) = Inr (Finite False r1)"
    using apos round64_normal(1)[OF qx] by (simp add: float_div_def is_zero_def x_def r1_def)
  have g: "float_div (Finite False a) (Finite False b) = Inr (Finite False r2)"
    using bpos round64_normal(1)[OF qy] by (simp add: float_div_def is_zero_def y_def r2_def)
  have "\<bar>r1 - x\<bar> \<le> x * e" using round64_normal(2)[OF qx] by (simp add: r1_def e_def)
  then have r1: "x * (1 - e) \<le> r1" "r1 \<le> x * (1 + e)" by (simp_all add: algebra_simps abs_le_iff)
  have "\<bar>r2 - y\<bar> \<le> y * e" using round64_normal(2)[OF qy] by (simp add: r2_def e_def)
  then have r2: "y * (1 - e) \<le> r2" "r2 \<le> y * (1 + e)" by (simp_all add: algebra_simps abs_le_iff)
  have r1pos: "0 < r1" using r1(1) xpos e by (auto intro: less_le_trans[rotated] mult_pos_pos)
  have r2pos: "0 < r2" using r2(1) ypos e by (auto intro: less_le_trans[rotated] mult_pos_pos)
  have "r1 * r2 \<le> (x * (1 + e)) * (y * (1 + e))"
    using r1 r2 r1pos r2pos by (intro mult_mono) auto
  also have "\<dots> = (x * y) * ((1 + e) * (1 + e))" by (simp add: mult_ac)
  finally have hi: "r1 * r2 \<le> (1 + e) * (1 + e)" by (simp add: xy)
  have "(x * y) * ((1 - e) * (1 - e)) = (x * (1 - e)) * (y * (1 - e))" by (simp add: mult_ac)
  also have "\<dots> \<le> r1 * r2"
  proof -
    have "0 \<le> y * (1 - e)" using ypos e by simp
    then show ?thesis using r1 r2 r1pos by (intro mult_mono) auto
  qed
  finally have lo: "(1 - e) * (1 - e) \<le> r1 * r2" by (simp add: xy)
  have lo_num: "2 powi (- 1022) \<le> (1 - e) * (1 - e)"
  proof -
    have "(2::rat) powi (- 1022) \<le> 2 powi (- 2)" by (intro power_int_increasing) auto
    also have "\<dots> \<le> (1 - e) * (1 - e)" by (simp add: e_def)
    finally show ?thesis .
  qed
  have hi_num: "(1 + e) * (1 + e) \<le> 2 ^ 1023"
  proof -
    have "(1 + e) * (1 + e) \<le> 2 powi 2" by (simp add: e_def)
    also have "\<dots> \<le> 2 powi 1023" by (intro power_int_increasing) auto
    finally show ?thesis by simp
  qed
  have q1: "2 powi (- 1022) \<le> r1 * r2" using lo lo_num by simp
  have q2: "r1 * r2 \<le> 2 ^ 1023" using hi hi_num by simp
  have m: "float_mul (Finite False r1) (Finite False r2) = Finite False p"
    using round64_normal(1)[OF q1 q2] by (simp add: p_def)
  have "\<bar>p - r1 * r2\<bar> \<le> r1 * r2 * e"
    using round64_normal(2)[OF q1 q2] by (simp add: p_def e_def)
  also have "\<dots> \<le> (1 + e) * (1 + e) * e"
    using hi e by (intro mult_right_mono) auto
  finally have d1: "\<bar>p - r1 * r2\<bar> \<le> (1 + e) * (1 + e) * e" .
  have d2: "\<bar>r1 * r2 - 1\<bar> \<le> (1 + e) * (1 + e) - 1"
  proof -
    have "1 - (1 - e) * (1 - e) \<le> (1 + e) * (1 + e) - 1" by (simp add: algebra_simps)
    with lo hi show ?thesis by (simp add: abs_le_iff)
  qed
  have "\<bar>p - 1\<bar> \<le> \<bar>p - r1 * r2\<bar> + \<bar>r1 * r2 - 1\<bar>" by simp
  also have "\<dots> \<le> (1 + e) * (1 + e) * e + ((1 + e) * (1 + e) - 1)"
    using d1 d2 by (rule add_mono)
  also have "\<dots> \<le> 2 powi (- 51)" by (simp add: e_def)
  finally have "\<bar>p - 1\<bar> \<le> 2 powi (- 51)" .
  with f g m show ?thesis by blast
qed

section \<open>Evaluating the two functions\<close>

text \<open>Every stored scale factor is a positive finite double between \<open>2\<^sup>-\<^sup>4\<^sup>0\<close> and
  \<open>2\<^sup>1\<^sup>1\<close>; the outcome of each function follows from the outcome of its lookups.\<close>

lemma length_value_range:
  "list_all (\<lambda>kv. case snd kv of Finite s q \<Rightarrow> \<not> s \<and> 2 powi (- 40) \<le> q \<and> q \<le> 2 powi 11
      | _ \<Rightarrow> False) (lengthUnit_factor units)"
  by (simp add: units_lengthUnit_factor)

lemma density_value_range:
  "list_all (\<lambda>kv. case snd kv of Finite s q \<Rightarrow> \<not> s \<and> 2 powi (- 40) \<le> q \<and> q \<le> 2 powi 11
      | _ \<Rightarrow> False) (densityUnit_factor units)"
  by (simp add: units_densityUnit_factor)

lemma time_value_range:
  "list_all (\<lambda>kv. case snd kv of Finite s q \<Rightarrow> \<not> s \<and> 2 powi (- 40) \<le> q \<and> q \<le> 2 powi 11
      | _ \<Rightarrow> False) (timeUnit_factor units)"
  by (simp add: units_timeUnit_factor)

lemma table_value_range:
  assumes "map_of (conversion_factor units) T = Some tab" and "map_of tab u = Some v"
  shows "\<exists>q. v = Finite False q \<and> 2 powi (- 40) \<le> q \<and> q \<le> 2 powi 11"
proof -
  have "list_all (\<lambda>kv. case snd kv of Finite s q \<Rightarrow> \<not> s \<and> 2 powi (- 40) \<le> q \<and> q \<le> 2 powi 11
      | _ \<Rightarrow> False) tab"
    using table_cases[OF assms(1)] length_value_range density_value_range time_value_range
    by auto
  moreover have "(u, v) \<in> set tab" using assms(2) by (rule map_of_SomeD)
  ultimately have "case v of Finite s q \<Rightarrow> \<not> s \<and> 2 powi (- 40) \<le> q \<and> q \<le> 2 powi 11
      | _ \<Rightarrow> False"
    by (auto simp: list_all_iff)
  then show ?thesis by (cases v) auto
qed

lemma table_value_nonzero:
  assumes "map_of (conversion_factor units) T = Some tab" and "map_of tab u = Some v"
  shows "\<not> is_zero v"
proof -
  from table_value_range[OF assms] obtain q where v: "v = Finite False q" and q: "2 powi (- 40) \<le> q"
    by blast
  have "0 < q" using q by (rule less_le_trans[rotated]) simp
  then show ?thesis by (simp add: v is_zero_def)
qed

lemma get_conversion_factor_found:
  assumes "map_of (conversion_factor g) T = Some tab"
    and "map_of tab u1 = Some s1" and "map_of tab u2 = Some s2"
  shows "get_conversion_factor g T u1 u2 = (float_div s2 s1, g)"
  using assms by (simp add: get_conversion_factor_def and_then_def getitem_def)

lemma convert_same_type:
  assumes "map_of (unit_types g) u1 = Some T" and "map_of (unit_types g) u2 = Some T"
  shows "convert g x u1 u2 =
    (case get_conversion_factor g T u1 u2 of
       (Inl e, g') \<Rightarrow> (Inl e, g') | (Inr f, g') \<Rightarrow> (number_mul_float x f, g'))"
  using assms by (simp add: convert_def and_then_def getitem_def)

lemma convert_other_type:
  assumes "map_of (unit_types g) u1 = Some T1" and "map_of (unit_types g) u2 = Some T2"
    and "T1 \<noteq> T2"
  shows "convert g x u1 u2 = (Inl (ValueError (Cannot_convert_between_unit_types T1 T2)), g)"
  using assms by (simp add: convert_def and_then_def getitem_def)

lemma convert_unknown:
  assumes "map_of (unit_types g) u1 = None \<or> map_of (unit_types g) u2 = None"
  shows "convert g x u1 u2 =
    (Inl (ValueError (Units_must_be_one_of (set (keys (unit_types g))) u1 u2)), g)"
  using assms by (auto simp: convert_def and_then_def getitem_def split: option.splits)

lemma div_tenth_1:
  "float_div (Finite False (3602879701896397 / 2 ^ 55))
     (Finite False 1) =
   Inr (Finite False (3602879701896397 / 2 ^ 55))"
  using round64_eqI [of "(- 4)" "3602879701896397 / 36028797018963968" 7205759403792794 False]
  by (simp add: float_div_def is_zero_def)

lemma mul_10_tenth:
  "float_mul (Finite False 10) (Finite False (3602879701896397 / 2 ^ 55)) = Finite False 1"
  using round64_eqI [of "0" "18014398509481985 / 18014398509481984" 4503599627370496 False]
  by simp

lemma div_1_tenth:
  "float_div (Finite False 1) (Finite False (3602879701896397 / 2 ^ 55)) = Inr (Finite False 10)"
  using round64_eqI [of "3" "36028797018963968 / 3602879701896397" 5629499534213120 False]
  by (simp add: float_div_def is_zero_def)

lemma mul_1_10:
  "float_mul (Finite False 1) (Finite False 10) = Finite False 10"
  using round64_eqI [of "3" "10" 5629499534213120 False]
  by simp

lemma mul_1_1000:
  "float_mul (Finite False 1) (Finite False 1000) = Finite False 1000"
  using round64_eqI [of "9" "1000" 8796093022208000 False]
  by simp

lemma div_second_1:
  "float_div (Finite False (4951760157141521 / 2 ^ 92))
     (Finite False 1) =
   Inr (Finite False (4951760157141521 / 2 ^ 92))"
  using round64_eqI
    [of "(- 40)" "4951760157141521 / 4951760157141521099596496896"
        4951760157141521 False]
  by (simp add: float_div_def is_zero_def)

lemma mul_1_second:
  "float_mul (Finite False 1)
     (Finite False (4951760157141521 / 2 ^ 92)) =
   Finite False (4951760157141521 / 2 ^ 92)"
  using round64_eqI
    [of "(- 40)" "4951760157141521 / 4951760157141521099596496896"
        4951760157141521 False]
  by simp

lemma div_1000_1:
  "float_div (Finite False 1000) (Finite False 1) = Inr (Finite False 1000)"
  using round64_eqI [of "9" "1000" 8796093022208000 False]
  by (simp add: float_div_def is_zero_def)


lemmas scenario_values =
  div_tenth_1 [simplified] mul_10_tenth [simplified] div_1_tenth [simplified]
  mul_1_10 [simplified] mul_1_1000 [simplified] div_second_1 [simplified]
  mul_1_second [simplified] div_1000_1 [simplified]

lemmas scenario_quotients =
  div_tenth_1 [unfolded float_div_def is_zero_def, simplified]
  div_1_tenth [unfolded float_div_def is_zero_def, simplified]
  div_1_1e_3 [unfolded float_div_def is_zero_def, simplified]
  div_second_1 [unfolded float_div_def is_zero_def, simplified]
  div_1000_1 [unfolded float_div_def is_zero_def, simplified]

lemma lookup_length:
  "map_of (conversion_factor units) ''length'' = Some (lengthUnit_factor units)"
  by (simp add: units_conversion_factor)

lemma lookup_density:
  "map_of (conversion_factor units) ''density'' = Some (densityUnit_factor units)"
  by (simp add: units_conversion_factor)

lemma lookup_time:
  "map_of (conversion_factor units) ''time'' = Some (timeUnit_factor units)"
  by (simp add: units_conversion_factor)

lemma keys_map_of: "k \<in> set (keys d) \<Longrightarrow> \<exists>v. map_of d k = Some v"
  using map_of_None_keys[of d k] by (cases "map_of d k") auto

lemma float_of_int_error: "isl (float_of_int i) \<Longrightarrow> float_of_int i = Inl OverflowError"
  by (simp add: float_of_int_def split: float64.splits)

lemma as_double_error:
  assumes "isl (as_double x)"
  shows "as_double x = Inl OverflowError" and "\<exists>i. x = PyInt i"
  using assms by (cases x; simp add: float_of_int_error)+

lemma float_of_int_in_range:
  assumes "\<bar>i\<bar> \<le> 2 ^ 1023"
  shows "float_of_int i = Inr (Finite (i < 0) (round_magnitude (of_int \<bar>i\<bar>)))"
proof (cases "i = 0")
  case True
  then show ?thesis
    by (simp add: float_of_int_def round64_def round_magnitude_def)
next
  case False
  then have "1 \<le> \<bar>i\<bar>" by simp
  then have one: "(1::rat) \<le> of_int \<bar>i\<bar>" by (simp only: of_int_1_le_iff)
  have "(2::rat) powi (- 1022) \<le> 2 powi 0" by (intro power_int_increasing) auto
  with one have lo: "2 powi (- 1022) \<le> (of_int \<bar>i\<bar> :: rat)" by simp
  have "(of_int \<bar>i\<bar> :: rat) \<le> of_int (2 ^ 1023)" using assms by (simp only: of_int_le_iff)
  then have hi: "(of_int \<bar>i\<bar> :: rat) \<le> 2 ^ 1023" by simp
  show ?thesis
    unfolding float_of_int_def round64_normal(1)[OF lo hi] by simp
qed

lemma round64_huge: "round64 s (10 ^ 400) = Infinity s"
proof -
  have "round_magnitude (10 ^ 400) = of_int 7686445155841023 * 2 powi (max (1328 - 52) (- 1074))"
    by (rule round_magnitude_eqI) simp_all
  then show ?thesis
    by (simp add: round64_def)
qed

lemma float_of_int_huge:
  "float_of_int (10 ^ 400) = Inl OverflowError" "float_of_int (- (10 ^ 400)) = Inl OverflowError"
  by (simp_all add: float_of_int_def round64_huge [simplified])

lemmas float_of_int_huge_numeral = float_of_int_huge [simplified]

lemma number_mul_float_simps:
  "number_mul_float (PyFloat a) f = Inr (float_mul a f)"
  "number_mul_float (PyInt i) f =
     (case float_of_int i of Inl e \<Rightarrow> Inl e | Inr a \<Rightarrow> Inr (float_mul a f))"
  by (simp_all add: number_mul_float_def and_then_def)

lemma convert_found:
  assumes "map_of (conversion_factor units) T = Some tab"
    and "map_of tab u1 = Some s1" and "map_of tab u2 = Some s2"
  shows "float_div s2 s1 = Inr (ieee_div s2 s1)"
    and "get_conversion_factor units T u1 u2 = (Inr (ieee_div s2 s1), units)"
    and "convert units x u1 u2 = (number_mul_float x (ieee_div s2 s1), units)"
proof -
  have nz: "\<not> is_zero s1" using assms(1,2) by (rule table_value_nonzero)
  then show d: "float_div s2 s1 = Inr (ieee_div s2 s1)" by (simp add: float_div_def)
  show g: "get_conversion_factor units T u1 u2 = (Inr (ieee_div s2 s1), units)"
    using get_conversion_factor_found[OF assms] d by simp
  have t1: "map_of (unit_types units) u1 = Some T"
    using assms(1) map_of_keys[OF assms(2)] by (rule table_consistent)
  have t2: "map_of (unit_types units) u2 = Some T"
    using assms(1) map_of_keys[OF assms(3)] by (rule table_consistent)
  show "convert units x u1 u2 = (number_mul_float x (ieee_div s2 s1), units)"
    by (simp add: convert_same_type[OF t1 t2] g)
qed

lemma convert_registered:
  assumes "map_of (unit_types units) u1 = Some T" and "map_of (unit_types units) u2 = Some T"
  shows "\<exists>tab s1 s2 f. map_of (conversion_factor units) T = Some tab
           \<and> map_of tab u1 = Some s1 \<and> map_of tab u2 = Some s2 \<and> \<not> is_zero s1
           \<and> get_conversion_factor units T u1 u2 = (Inr f, units)
           \<and> convert units x u1 u2 = (number_mul_float x f, units)"
proof -
  from unit_types_consistent[OF assms(1)] obtain tab
    where tab: "map_of (conversion_factor units) T = Some tab" and k1: "u1 \<in> set (keys tab)"
    by blast
  from unit_types_consistent[OF assms(2)] tab have k2: "u2 \<in> set (keys tab)" by auto
  from keys_map_of[OF k1] obtain s1 where s1: "map_of tab u1 = Some s1" by blast
  from keys_map_of[OF k2] obtain s2 where s2: "map_of tab u2 = Some s2" by blast
  from convert_found(2)[OF tab s1 s2] convert_found(3)[OF tab s1 s2, of x]
    table_value_nonzero[OF tab s1] tab s1 s2
  show ?thesis by blast
qed

lemma unknown_name:
  assumes "u \<notin> set (keys (lengthUnit_factor units))"
    and "u \<notin> set (keys (densityUnit_factor units))"
    and "u \<notin> set (keys (timeUnit_factor units))"
  shows "map_of (unit_types units) u = None"
  using assms by (simp add: map_of_None_keys keys_unit_types)

section \<open>The loop that fills the reverse index\<close>

text \<open>The last table scanned that holds a name decides its entry; as no two tables share a
  name, the scan order does not matter.\<close>

lemma map_of_setitem: "map_of (setitem d k v) = (map_of d)(k \<mapsto> v)"
  by (induction d k v rule: setitem.induct) auto

lemma map_of_inner_loop:
  "map_of (fold (\<lambda>unit ut'. setitem ut' unit T) ks ut) u =
     (if u \<in> set ks then Some T else map_of ut u)"
  by (induction ks arbitrary: ut) (auto simp: map_of_setitem)

lemma unit_types_loop_snoc:
  "map_of (unit_types_loop (its @ [(T, tab)])) u =
     (if u \<in> set (keys tab) then Some T else map_of (unit_types_loop its) u)"
  by (simp add: unit_types_loop_def map_of_inner_loop)

lemma unit_types_loop_lookup:
  assumes "\<And>T tab T' tab'. (T, tab) \<in> set its \<Longrightarrow> (T', tab') \<in> set its \<Longrightarrow>
             u \<in> set (keys tab) \<Longrightarrow> u \<in> set (keys tab') \<Longrightarrow> T = T'"
  shows "map_of (unit_types_loop its) u = Some T \<longleftrightarrow>
           (\<exists>tab. (T, tab) \<in> set its \<and> u \<in> set (keys tab))"
  using assms
proof (induction its rule: rev_induct)
  case Nil
  then show ?case by (simp add: unit_types_loop_def)
next
  case (snoc x its)
  obtain T0 tab0 where x: "x = (T0, tab0)" by (cases x)
  show ?case
  proof (cases "u \<in> set (keys tab0)")
    case True
    have "T = T0" if "(T, tab) \<in> set (its @ [x])" "u \<in> set (keys tab)" for tab
      using snoc.prems[of T tab T0 tab0] that True by (simp add: x)
    then show ?thesis
      using True by (auto simp: x unit_types_loop_snoc)
  next
    case False
    have "map_of (unit_types_loop its) u = Some T \<longleftrightarrow>
           (\<exists>tab. (T, tab) \<in> set its \<and> u \<in> set (keys tab))"
      by (rule snoc.IH) (use snoc.prems in auto)
    then show ?thesis
      using False by (auto simp: x unit_types_loop_snoc)
  qed
qed

lemma registry_owner_unique:
  assumes "(T, tab) \<in> set (items (conversion_factor units))"
    and "(T', tab') \<in> set (items (conversion_factor units))"
    and "u \<in> set (keys tab)" and "u \<in> set (keys tab')"
  shows "T = T'"
proof -
  have d: "distinct (map fst (conversion_factor units))"
    by (simp add: units_conversion_factor)
  have "map_of (conversion_factor units) T = Some tab"
    using assms(1) d by (simp add: items_def)
  then have a: "map_of (unit_types units) u = Some T"
    using assms(3) by (rule table_consistent)
  have "map_of (conversion_factor units) T' = Some tab'"
    using assms(2) d by (simp add: items_def)
  then have "map_of (unit_types units) u = Some T'"
    using assms(4) by (rule table_consistent)
  with a show ?thesis by simp
qed

lemma unit_types_loop_any_order:
  assumes "set its = set (items (conversion_factor units))"
  shows "map_of (unit_types_loop its) = map_of (unit_types units)"
proof
  fix u
  have l: "map_of (unit_types_loop its) u = Some T \<longleftrightarrow>
           (\<exists>tab. (T, tab) \<in> set (items (conversion_factor units)) \<and> u \<in> set (keys tab))" for T
    using unit_types_loop_lookup[of its u T] registry_owner_unique
    unfolding assms by blast
  have d: "distinct (map fst (conversion_factor units))"
    by (simp add: units_conversion_factor)
  have r: "map_of (unit_types units) u = Some T \<longleftrightarrow>
           (\<exists>tab. (T, tab) \<in> set (items (conversion_factor units)) \<and> u \<in> set (keys tab))" for T
  proof
    assume "map_of (unit_types units) u = Some T"
    from unit_types_consistent[OF this] show
      "\<exists>tab. (T, tab) \<in> set (items (conversion_factor units)) \<and> u \<in> set (keys tab)"
      by (auto simp: items_def dest: map_of_SomeD)
  next
    assume "\<exists>tab. (T, tab) \<in> set (items (conversion_factor units)) \<and> u \<in> set (keys tab)"
    then obtain tab where "(T, tab) \<in> set (conversion_factor units)" "u \<in> set (keys tab)"
      by (auto simp: items_def)
    then show "map_of (unit_types units) u = Some T"
      using d by (auto intro: table_consistent)
  qed
  show "map_of (unit_types_loop its) u = map_of (unit_types units) u"
  proof (cases "map_of (unit_types units) u")
    case None
    then have "map_of (unit_types_loop its) u \<noteq> Some T" for T
      using l[of T] r[of T] by simp
    then show ?thesis using None by (cases "map_of (unit_types_loop its) u") auto
  next
    case (Some T)
    then show ?thesis using l[of T] r[of T] by simp
  qed
qed

lemma functions_keep_globals:
  "snd (get_conversion_factor g T u1 u2) = g" "snd (convert g x u1 u2) = g"
  by (auto simp: get_conversion_factor_def convert_def split: sum.splits error.splits prod.splits)

section \<open>Conversion between units of one quantity type\<close>

text \<open>
  C1, as the code has it: for every two unit names registered in the table of one quantity
  type \<open>T\<close>, with scale factors \<open>s1\<close> and \<open>s2\<close>, the float division \<open>s2 / s1\<close>
  succeeds and \<^verbatim>\<open>get_conversion_factor(T, u1, u2)\<close> returns that quotient \<open>f\<close>, with no
  side effect. For a float \<open>a\<close>, \<^verbatim>\<open>convert(a, u1, u2)\<close> returns the float product \<open>a * f\<close>.
  For an \<^verbatim>\<open>int\<close> \<open>i\<close>, \<^verbatim>\<open>convert(i, u1, u2)\<close> returns the product of its nearest double
  with \<open>f\<close> when the conversion of \<open>i\<close> to a double succeeds, as it does whenever
  \<open>\<bar>i\<bar> \<le> 2\<^sup>1\<^sup>0\<^sup>2\<^sup>3\<close>, and raises \<^verbatim>\<open>OverflowError\<close>, the only way the conversion fails,
  when it does not. The globals are unchanged in every case.
\<close>

theorem convert_multiplies_by_factor:
  assumes "map_of (conversion_factor units) T = Some tab"
    and "map_of tab u1 = Some s1" and "map_of tab u2 = Some s2"
  shows "\<exists>f. float_div s2 s1 = Inr f
           \<and> get_conversion_factor units T u1 u2 = (Inr f, units)
           \<and> convert units (PyFloat a) u1 u2 = (Inr (float_mul a f), units)
           \<and> (\<forall>b. float_of_int i = Inr b \<longrightarrow>
                convert units (PyInt i) u1 u2 = (Inr (float_mul b f), units))
           \<and> (float_of_int i = Inl OverflowError \<longrightarrow>
                convert units (PyInt i) u1 u2 = (Inl OverflowError, units))
           \<and> (\<bar>i\<bar> \<le> 2 ^ 1023 \<longrightarrow> \<not> isl (float_of_int i))
           \<and> (isl (float_of_int i) \<longrightarrow> float_of_int i = Inl OverflowError)"
proof -
  have "convert units (PyFloat a) u1 u2 = (Inr (float_mul a (ieee_div s2 s1)), units)"
    using convert_found(3)[OF assms, of "PyFloat a"] by (simp add: number_mul_float_simps)
  moreover have "convert units (PyInt i) u1 u2 = (Inr (float_mul b (ieee_div s2 s1)), units)"
    if "float_of_int i = Inr b" for b
    using convert_found(3)[OF assms, of "PyInt i"] that by (simp add: number_mul_float_simps)
  moreover have "convert units (PyInt i) u1 u2 = (Inl OverflowError, units)"
    if "float_of_int i = Inl OverflowError"
    using convert_found(3)[OF assms, of "PyInt i"] that by (simp add: number_mul_float_simps)
  moreover have "\<not> isl (float_of_int i)" if "\<bar>i\<bar> \<le> 2 ^ 1023"
    using float_of_int_in_range[OF that] by simp
  moreover have "float_of_int i = Inl OverflowError" if "isl (float_of_int i)"
    using that by (rule float_of_int_error)
  ultimately show ?thesis
    using convert_found(1,2)[OF assms] by blast
qed

theorem convert_multiplies_by_factor_witness:
  "map_of (conversion_factor units) ''length'' = Some (lengthUnit_factor units)
   \<and> map_of (lengthUnit_factor units) ''Angstrom'' = Some (Finite False 1)
   \<and> map_of (lengthUnit_factor units) ''nm'' = Some (Finite False (3602879701896397 / 2 ^ 55))
   \<and> get_conversion_factor units ''length'' ''Angstrom'' ''nm'' =
       (Inr (Finite False (3602879701896397 / 2 ^ 55)), units)
   \<and> convert units (PyFloat (Finite False 10)) ''Angstrom'' ''nm'' =
       (Inr (Finite False 1), units)
   \<and> float_of_int 10 = Inr (Finite False 10) \<and> \<bar>10 :: int\<bar> \<le> 2 ^ 1023
   \<and> convert units (PyInt 10) ''Angstrom'' ''nm'' = (Inr (Finite False 1), units)
   \<and> float_of_int (10 ^ 400) = Inl OverflowError \<and> isl (float_of_int (10 ^ 400))
   \<and> convert units (PyInt (10 ^ 400)) ''Angstrom'' ''nm'' = (Inl OverflowError, units)"
proof -
  have a: "map_of (lengthUnit_factor units) ''Angstrom'' = Some (Finite False 1)"
    by (simp add: units_lengthUnit_factor)
  have b: "map_of (lengthUnit_factor units) ''nm'' =
      Some (Finite False (3602879701896397 / 2 ^ 55))"
    by (simp add: units_lengthUnit_factor A_ring_def)
  from convert_multiplies_by_factor[OF lookup_length a b, of "Finite False 10" 10]
    convert_multiplies_by_factor[OF lookup_length a b, of "Finite False 10" "10 ^ 400"]
  show ?thesis
    using a b lookup_length
    by (auto simp: scenario_values float_of_int_10 [simplified] float_of_int_huge_numeral)
qed

text \<open>
  C1 as the specification states it fails for an \<^verbatim>\<open>int\<close> beyond the range of the doubles:
  \<^verbatim>\<open>'Angstrom'\<close> and \<^verbatim>\<open>'A'\<close> are both registered under \<^verbatim>\<open>length\<close>, and
  \<^verbatim>\<open>convert(10**400, 'Angstrom', 'A')\<close> raises \<^verbatim>\<open>OverflowError\<close> instead of returning a
  product.
\<close>

theorem convert_multiplies_by_factor_counterexample:
  "map_of (conversion_factor units) ''length'' = Some (lengthUnit_factor units)
   \<and> map_of (lengthUnit_factor units) ''Angstrom'' = Some (Finite False 1)
   \<and> map_of (lengthUnit_factor units) ''A'' = Some (Finite False 1)
   \<and> convert units (PyInt (10 ^ 400)) ''Angstrom'' ''A'' = (Inl OverflowError, units)"
proof -
  have a: "map_of (lengthUnit_factor units) ''Angstrom'' = Some (Finite False 1)"
    and b: "map_of (lengthUnit_factor units) ''A'' = Some (Finite False 1)"
    by (simp_all add: units_lengthUnit_factor)
  show ?thesis
    using a b lookup_length convert_found(3)[OF lookup_length a b, of "PyInt (10 ^ 400)"]
    by (simp add: number_mul_float_simps float_of_int_huge_numeral)
qed

section \<open>The errors of \<^verbatim>\<open>convert\<close>\<close>

text \<open>
  C2, as the code has it: for every number \<open>x\<close> and unit names \<open>u1\<close>, \<open>u2\<close>,
  \<^verbatim>\<open>convert(x, u1, u2)\<close> raises the \<^verbatim>\<open>ValueError\<close> "units must be one of ..." (the
  specification's UnknownUnitError) when either name is not a key of \<^verbatim>\<open>unit_types\<close>; it
  raises the \<^verbatim>\<open>ValueError\<close> "Cannot convert between unit types ..." (the specification's
  IncompatibleUnitsError) when both are registered with different quantity types. When
  both are registered with the same type it returns a value if \<open>x\<close> is a float or an
  \<^verbatim>\<open>int\<close> that converts to a double, and raises \<^verbatim>\<open>OverflowError\<close> if \<open>x\<close> is an \<^verbatim>\<open>int\<close>
  too large for a double; only an \<^verbatim>\<open>int\<close> fails to convert, and only so. In particular
  \<^verbatim>\<open>convert(x, 'Angstrom', 'ps')\<close> raises the second \<^verbatim>\<open>ValueError\<close> for every \<open>x\<close>, and
  \<^verbatim>\<open>convert(1.0, 'Angstrom', 'furlong')\<close> the first. The outcome is always either an
  exception or a value, with the globals unchanged.
\<close>

theorem convert_errors:
  "(u1 \<notin> set (keys (unit_types units)) \<or> u2 \<notin> set (keys (unit_types units)) \<longrightarrow>
      convert units x u1 u2 =
        (Inl (ValueError (Units_must_be_one_of (set (keys (unit_types units))) u1 u2)), units))
   \<and> (\<forall>T1 T2. map_of (unit_types units) u1 = Some T1 \<and> map_of (unit_types units) u2 = Some T2
        \<and> T1 \<noteq> T2 \<longrightarrow>
      convert units x u1 u2 =
        (Inl (ValueError (Cannot_convert_between_unit_types T1 T2)), units))
   \<and> (\<forall>T a. map_of (unit_types units) u1 = Some T \<and> map_of (unit_types units) u2 = Some T
        \<and> as_double x = Inr a \<longrightarrow>
      (\<exists>y. convert units x u1 u2 = (Inr y, units)))
   \<and> (\<forall>T. map_of (unit_types units) u1 = Some T \<and> map_of (unit_types units) u2 = Some T
        \<and> as_double x = Inl OverflowError \<longrightarrow>
      convert units x u1 u2 = (Inl OverflowError, units))
   \<and> (isl (as_double x) \<longrightarrow> as_double x = Inl OverflowError \<and> (\<exists>i. x = PyInt i))
   \<and> convert units x ''Angstrom'' ''ps'' =
        (Inl (ValueError (Cannot_convert_between_unit_types ''length'' ''time'')), units)
   \<and> convert units (PyFloat (float_literal 1.0 0)) ''Angstrom'' ''furlong'' =
        (Inl (ValueError (Units_must_be_one_of (set (keys (unit_types units)))
           ''Angstrom'' ''furlong'')), units)"
proof (intro conjI allI impI)
  assume "u1 \<notin> set (keys (unit_types units)) \<or> u2 \<notin> set (keys (unit_types units))"
  then have "map_of (unit_types units) u1 = None \<or> map_of (unit_types units) u2 = None"
    by (simp add: map_of_None_keys)
  then show "convert units x u1 u2 =
        (Inl (ValueError (Units_must_be_one_of (set (keys (unit_types units))) u1 u2)), units)"
    by (rule convert_unknown)
next
  fix T1 T2
  assume "map_of (unit_types units) u1 = Some T1 \<and> map_of (unit_types units) u2 = Some T2
        \<and> T1 \<noteq> T2"
  then show "convert units x u1 u2 =
        (Inl (ValueError (Cannot_convert_between_unit_types T1 T2)), units)"
    by (auto intro: convert_other_type)
next
  fix T a
  assume h: "map_of (unit_types units) u1 = Some T \<and> map_of (unit_types units) u2 = Some T
        \<and> as_double x = Inr a"
  then have "map_of (unit_types units) u1 = Some T" "map_of (unit_types units) u2 = Some T"
    by auto
  from convert_registered[OF this, of x] h
  show "\<exists>y. convert units x u1 u2 = (Inr y, units)"
    by (auto simp: number_mul_float_def and_then_def)
next
  fix T
  assume h: "map_of (unit_types units) u1 = Some T \<and> map_of (unit_types units) u2 = Some T
        \<and> as_double x = Inl OverflowError"
  then have "map_of (unit_types units) u1 = Some T" "map_of (unit_types units) u2 = Some T"
    by auto
  from convert_registered[OF this, of x] h
  show "convert units x u1 u2 = (Inl OverflowError, units)"
    by (auto simp: number_mul_float_def and_then_def)
next
  assume "isl (as_double x)"
  then show "as_double x = Inl OverflowError" and "\<exists>i. x = PyInt i"
    by (rule as_double_error)+
next
  have "map_of (unit_types units) ''Angstrom'' = Some ''length''"
    by (intro unit_types_length) (simp add: keys_length)
  moreover have "map_of (unit_types units) ''ps'' = Some ''time''"
    by (intro unit_types_time) (simp add: keys_time)
  ultimately show "convert units x ''Angstrom'' ''ps'' =
        (Inl (ValueError (Cannot_convert_between_unit_types ''length'' ''time'')), units)"
    by (intro convert_other_type) auto
next
  have "map_of (unit_types units) ''furlong'' = None"
    by (intro unknown_name) (simp_all add: keys_length keys_density keys_time A_ring_def)
  then show "convert units (PyFloat (float_literal 1.0 0)) ''Angstrom'' ''furlong'' =
        (Inl (ValueError (Units_must_be_one_of (set (keys (unit_types units)))
           ''Angstrom'' ''furlong'')), units)"
    by (intro convert_unknown) simp
qed

theorem convert_errors_witness:
  "''parsec'' \<notin> set (keys (unit_types units))
   \<and> convert units (PyFloat (Finite False 1)) ''nm'' ''parsec'' =
        (Inl (ValueError (Units_must_be_one_of (set (keys (unit_types units)))
           ''nm'' ''parsec'')), units)
   \<and> map_of (unit_types units) ''ns'' = Some ''time''
   \<and> map_of (unit_types units) ''Molar'' = Some ''density''
   \<and> convert units (PyInt (10 ^ 400)) ''ns'' ''Molar'' =
        (Inl (ValueError (Cannot_convert_between_unit_types ''time'' ''density'')), units)
   \<and> map_of (unit_types units) ''ps'' = Some ''time''
   \<and> as_double (PyFloat (Finite False 1)) = Inr (Finite False 1)
   \<and> (\<exists>y. convert units (PyFloat (Finite False 1)) ''ns'' ''ps'' = (Inr y, units))
   \<and> as_double (PyInt 10) = Inr (Finite False 10)
   \<and> (\<exists>y. convert units (PyInt 10) ''ns'' ''ps'' = (Inr y, units))
   \<and> as_double (PyInt (10 ^ 400)) = Inl OverflowError
   \<and> isl (as_double (PyInt (10 ^ 400)))
   \<and> convert units (PyInt (10 ^ 400)) ''ns'' ''ps'' = (Inl OverflowError, units)"
proof -
  have "map_of (unit_types units) ''parsec'' = None"
    by (intro unknown_name) (simp_all add: keys_length keys_density keys_time A_ring_def)
  then have a: "''parsec'' \<notin> set (keys (unit_types units))"
    by (simp add: map_of_None_keys)
  have b: "map_of (unit_types units) ''ns'' = Some ''time''"
    by (intro unit_types_time) (simp add: keys_time)
  have c: "map_of (unit_types units) ''Molar'' = Some ''density''"
    by (intro unit_types_density) (simp add: keys_density)
  have d: "map_of (unit_types units) ''ps'' = Some ''time''"
    by (intro unit_types_time) (simp add: keys_time)
  have e: "as_double (PyInt 10) = Inr (Finite False 10)"
    by (simp add: float_of_int_10)
  have f: "as_double (PyInt (10 ^ 400)) = Inl OverflowError"
    by (simp only: as_double.simps float_of_int_huge)
  have w1: "convert units (PyFloat (Finite False 1)) ''nm'' ''parsec'' =
        (Inl (ValueError (Units_must_be_one_of (set (keys (unit_types units)))
           ''nm'' ''parsec'')), units)"
    using a convert_errors[of "''nm''" "''parsec''" "PyFloat (Finite False 1)"] by blast
  have w2: "convert units (PyInt (10 ^ 400)) ''ns'' ''Molar'' =
        (Inl (ValueError (Cannot_convert_between_unit_types ''time'' ''density'')), units)"
  proof -
    have "''time'' \<noteq> ''density''" by simp
    with b c convert_errors[of "''ns''" "''Molar''" "PyInt (10 ^ 400)"] show ?thesis by blast
  qed
  have w3: "\<exists>y. convert units (PyFloat (Finite False 1)) ''ns'' ''ps'' = (Inr y, units)"
    using b d as_double.simps(1)[of "Finite False 1"]
      convert_errors[of "''ns''" "''ps''" "PyFloat (Finite False 1)"] by blast
  have w4: "\<exists>y. convert units (PyInt 10) ''ns'' ''ps'' = (Inr y, units)"
    using b d e convert_errors[of "''ns''" "''ps''" "PyInt 10"] by blast
  have w5: "convert units (PyInt (10 ^ 400)) ''ns'' ''ps'' = (Inl OverflowError, units)"
    using b d f convert_errors[of "''ns''" "''ps''" "PyInt (10 ^ 400)"] by blast
  have g: "isl (as_double (PyInt (10 ^ 400)))"
    by (simp only: f sum.disc)
  show ?thesis
    using a b c d e f g w1 w2 w3 w4 w5 as_double.simps(1)[of "Finite False 1"]
    by (intro conjI) assumption+
qed

text \<open>
  C2 as the specification states it fails where it says that no error is raised otherwise:
  \<^verbatim>\<open>'nm'\<close> and \<^verbatim>\<open>'Angstrom'\<close> are both registered with the type \<^verbatim>\<open>length\<close>, and
  \<^verbatim>\<open>convert(10**400, 'nm', 'Angstrom')\<close> raises \<^verbatim>\<open>OverflowError\<close>.
\<close>

theorem convert_errors_counterexample:
  "map_of (unit_types units) ''nm'' = Some ''length''
   \<and> map_of (unit_types units) ''Angstrom'' = Some ''length''
   \<and> convert units (PyInt (10 ^ 400)) ''nm'' ''Angstrom'' = (Inl OverflowError, units)"
proof -
  have a: "map_of (unit_types units) ''nm'' = Some ''length''"
    and b: "map_of (unit_types units) ''Angstrom'' = Some ''length''"
    by (intro unit_types_length; simp add: keys_length)+
  from convert_registered[OF a b, of "PyInt (10 ^ 400)"] a b show ?thesis
    by (auto simp: number_mul_float_simps float_of_int_huge_numeral)
qed

section \<open>The stored scale factors\<close>

text \<open>
  C3: every registered unit's stored scale factor is, bit for bit, the value of the
  expression section 4.1 of the specification gives for it, evaluated in float arithmetic:
  the three tables hold the names and values of \<open>spec_length\<close>, \<open>spec_time\<close> and
  \<open>spec_density\<close>, in that order and with no exception raised. The \<^verbatim>\<open>Molar\<close> factor is a
  positive finite double that differs from the exact quotient
  \<open>1 / (10\<^sup>-\<^sup>2\<^sup>7 \<times> 6.02214179 \<times> 10\<^sup>2\<^sup>3)\<close> by at most \<open>5 \<times> 10\<^sup>-\<^sup>1\<^sup>1\<close> of it, so the two
  agree to ten significant digits.
\<close>

theorem scale_factors_as_specified:
  "map (\<lambda>(k, v). (k, Inr v)) (lengthUnit_factor units) = spec_length
   \<and> map (\<lambda>(k, v). (k, Inr v)) (timeUnit_factor units) = spec_time
   \<and> map (\<lambda>(k, v). (k, Inr v)) (densityUnit_factor units) = spec_density
   \<and> (\<exists>q. map_of (densityUnit_factor units) ''Molar'' = Some (Finite False q)
        \<and> \<bar>q - 1 / (10 powi (- 27) * (6.02214179 * 10 powi 23))\<bar>
            \<le> 1 / (10 powi (- 27) * (6.02214179 * 10 powi 23)) * (5 * 10 powi (- 11)))"
proof (intro conjI)
  show "map (\<lambda>(k, v). (k, Inr v)) (lengthUnit_factor units) = spec_length"
    by (simp add: units_lengthUnit_factor spec_length_def float_values mixed_division)
  show "map (\<lambda>(k, v). (k, Inr v)) (timeUnit_factor units) = spec_time"
    by (simp add: units_timeUnit_factor spec_time_def float_values mixed_division)
  show "map (\<lambda>(k, v). (k, Inr v)) (densityUnit_factor units) = spec_density"
    by (simp add: units_densityUnit_factor spec_density_def spec_water_factor_def and_then_def
        float_values mixed_division)
  have "map_of (densityUnit_factor units) ''Molar'' =
      Some (Finite False (1825781700460427 / 2 ^ 40))"
    by (simp add: units_densityUnit_factor A_ring_def)
  moreover have "\<bar>1825781700460427 / 2 ^ 40 - 1 / (10 powi (- 27) * (6.02214179 * 10 powi 23))\<bar>
      \<le> 1 / (10 powi (- 27) * (6.02214179 * 10 powi 23)) * (5 * 10 powi (- 11) :: rat)"
    by simp
  ultimately show "\<exists>q. map_of (densityUnit_factor units) ''Molar'' = Some (Finite False q)
        \<and> \<bar>q - 1 / (10 powi (- 27) * (6.02214179 * 10 powi 23))\<bar>
            \<le> 1 / (10 powi (- 27) * (6.02214179 * 10 powi 23)) * (5 * 10 powi (- 11))"
    by blast
qed

section \<open>Looking up a missing unit\<close>

text \<open>
  C4, as the code has it: for a registered quantity type \<open>T\<close>, when \<open>u1\<close> or \<open>u2\<close> is
  not a key of \<open>T\<close>'s table, \<^verbatim>\<open>get_conversion_factor(T, u1, u2)\<close> raises the
  \<^verbatim>\<open>KeyError\<close> of the failed dictionary lookup and nothing else. The exception carries
  the missing name alone (\<open>u2\<close>, which is looked up first, when \<open>u2\<close> is missing,
  otherwise \<open>u1\<close>), and no collection of known unit names.
\<close>

theorem get_conversion_factor_missing_unit:
  assumes "map_of (conversion_factor units) T = Some tab"
    and "u1 \<notin> set (keys tab) \<or> u2 \<notin> set (keys tab)"
  shows "get_conversion_factor units T u1 u2 =
           (Inl (KeyError (if u2 \<in> set (keys tab) then u1 else u2)), units)
         \<and> known_units_carried (KeyError (if u2 \<in> set (keys tab) then u1 else u2)) = None"
proof (cases "u2 \<in> set (keys tab)")
  case True
  then obtain s2 where s2: "map_of tab u2 = Some s2" using keys_map_of by blast
  from True assms(2) have "map_of tab u1 = None" by (simp add: map_of_None_keys)
  then show ?thesis
    using True assms(1) s2
    by (simp add: get_conversion_factor_def and_then_def getitem_def)
next
  case False
  then have "map_of tab u2 = None" by (simp add: map_of_None_keys)
  then show ?thesis
    using False assms(1)
    by (simp add: get_conversion_factor_def and_then_def getitem_def)
qed

theorem get_conversion_factor_missing_unit_witness:
  "map_of (conversion_factor units) ''time'' = Some (timeUnit_factor units)
   \<and> ''fortnight'' \<notin> set (keys (timeUnit_factor units))
   \<and> get_conversion_factor units ''time'' ''fortnight'' ''ps'' =
       (Inl (KeyError ''fortnight''), units)"
proof -
  have k: "''fortnight'' \<notin> set (keys (timeUnit_factor units))"
    and k2: "''ps'' \<in> set (keys (timeUnit_factor units))" by (simp_all add: keys_time)
  then have "''fortnight'' \<notin> set (keys (timeUnit_factor units))
      \<or> ''ps'' \<notin> set (keys (timeUnit_factor units))" by simp
  from get_conversion_factor_missing_unit[OF lookup_time this] show ?thesis
    using k k2 lookup_time by simp
qed

text \<open>
  C4 as the specification states it fails: \<^verbatim>\<open>get_conversion_factor('length', 'Angstrom',
  'furlong')\<close> raises \<^verbatim>\<open>KeyError('furlong')\<close>, which carries no set of known unit names,
  while \<^verbatim>\<open>convert\<close> reports the same unknown name by a \<^verbatim>\<open>ValueError\<close> that does.
\<close>

theorem get_conversion_factor_missing_unit_counterexample:
  "get_conversion_factor units ''length'' ''Angstrom'' ''furlong'' =
     (Inl (KeyError ''furlong''), units)
   \<and> known_units_carried (KeyError ''furlong'') = None
   \<and> known_units_carried (ValueError (Units_must_be_one_of (set (keys (unit_types units)))
        ''Angstrom'' ''furlong'')) = Some (set (keys (unit_types units)))"
  by (simp add: get_conversion_factor_def and_then_def getitem_def units_conversion_factor
      units_lengthUnit_factor A_ring_def)

section \<open>Algebraic properties of the conversion factor\<close>

text \<open>
  C5 (identity): for every quantity type \<open>T\<close> and every unit \<open>u\<close> registered in \<open>T\<close>'s
  table, \<^verbatim>\<open>get_conversion_factor(T, u, u)\<close> returns exactly the double \<^verbatim>\<open>1.0\<close>.
\<close>

theorem factor_identity:
  assumes "map_of (conversion_factor units) T = Some tab" and "u \<in> set (keys tab)"
  shows "get_conversion_factor units T u u = (Inr (float_literal 1.0 0), units)"
proof -
  from keys_map_of[OF assms(2)] obtain v where v: "map_of tab u = Some v" by blast
  from table_value_range[OF assms(1) v] obtain q
    where q: "v = Finite False q" "2 powi (- 40) \<le> q" by blast
  have "0 < q" using q(2) by (rule less_le_trans[rotated]) simp
  then have "float_div v v = Inr (Finite False 1)"
    unfolding q(1) by (intro float_div_self) simp
  then show ?thesis
    using get_conversion_factor_found[OF assms(1) v v] by (simp add: literal_1_0 [simplified])
qed

theorem factor_identity_witness:
  "map_of (conversion_factor units) ''density'' = Some (densityUnit_factor units)
   \<and> ''Molar'' \<in> set (keys (densityUnit_factor units))
   \<and> get_conversion_factor units ''density'' ''Molar'' ''Molar'' = (Inr (Finite False 1), units)"
proof -
  have k: "''Molar'' \<in> set (keys (densityUnit_factor units))"
    by (simp add: keys_density)
  from factor_identity[OF lookup_density k] show ?thesis
    using k lookup_density by (simp add: literal_1_0 [simplified])
qed

text \<open>
  C6 (round trip): for every quantity type \<open>T\<close> and every two units \<open>u1\<close>, \<open>u2\<close>
  registered in \<open>T\<close>'s table, both factors are computed without an exception and their
  float product \<open>p\<close> is a positive finite double with \<open>\<bar>p - 1\<bar> \<le> 10\<^sup>-\<^sup>1\<^sup>2\<close>, relative to
  \<open>1.0\<close> as well as relative to \<open>p\<close>.
\<close>

theorem factor_round_trip:
  assumes "map_of (conversion_factor units) T = Some tab"
    and "u1 \<in> set (keys tab)" and "u2 \<in> set (keys tab)"
  shows "\<exists>f g p. get_conversion_factor units T u1 u2 = (Inr f, units)
           \<and> get_conversion_factor units T u2 u1 = (Inr g, units)
           \<and> float_mul f g = Finite False p
           \<and> \<bar>p - 1\<bar> \<le> 10 powi (- 12) \<and> \<bar>p - 1\<bar> \<le> 10 powi (- 12) * p"
proof -
  from keys_map_of[OF assms(2)] obtain v1 where v1: "map_of tab u1 = Some v1" by blast
  from keys_map_of[OF assms(3)] obtain v2 where v2: "map_of tab u2 = Some v2" by blast
  from table_value_range[OF assms(1) v1] obtain a
    where a: "v1 = Finite False a" "2 powi (- 40) \<le> a" "a \<le> 2 powi 11" by blast
  from table_value_range[OF assms(1) v2] obtain b
    where b: "v2 = Finite False b" "2 powi (- 40) \<le> b" "b \<le> 2 powi 11" by blast
  from round_trip_bound[OF a(2,3) b(2,3)] obtain f g p
    where f: "float_div v2 v1 = Inr f" and g: "float_div v1 v2 = Inr g"
      and m: "float_mul f g = Finite False p" and p: "\<bar>p - 1\<bar> \<le> 2 powi (- 51)"
    unfolding a(1) b(1) by blast
  have tol: "(2::rat) powi (- 51) \<le> 10 powi (- 12) * (1 - 2 powi (- 51))" by simp
  have "1 - 2 powi (- 51) \<le> p" using p by linarith
  then have "10 powi (- 12) * (1 - 2 powi (- 51)) \<le> 10 powi (- 12) * p"
    by (intro mult_left_mono) auto
  with tol p have p2: "\<bar>p - 1\<bar> \<le> 10 powi (- 12) * p" by linarith
  have "(2::rat) powi (- 51) \<le> 10 powi (- 12)" by simp
  with p have p1: "\<bar>p - 1\<bar> \<le> 10 powi (- 12)" by linarith
  have "get_conversion_factor units T u1 u2 = (Inr f, units)"
    using get_conversion_factor_found[OF assms(1) v1 v2] f by simp
  moreover have "get_conversion_factor units T u2 u1 = (Inr g, units)"
    using get_conversion_factor_found[OF assms(1) v2 v1] g by simp
  ultimately show ?thesis using m p1 p2 by blast
qed

theorem factor_round_trip_witness:
  "map_of (conversion_factor units) ''time'' = Some (timeUnit_factor units)
   \<and> ''ps'' \<in> set (keys (timeUnit_factor units))
   \<and> ''AKMA'' \<in> set (keys (timeUnit_factor units))
   \<and> (\<exists>f g p. get_conversion_factor units ''time'' ''ps'' ''AKMA'' = (Inr f, units)
           \<and> get_conversion_factor units ''time'' ''AKMA'' ''ps'' = (Inr g, units)
           \<and> float_mul f g = Finite False p
           \<and> \<bar>p - 1\<bar> \<le> 10 powi (- 12) \<and> \<bar>p - 1\<bar> \<le> 10 powi (- 12) * p)"
proof -
  have k1: "''ps'' \<in> set (keys (timeUnit_factor units))"
    and k2: "''AKMA'' \<in> set (keys (timeUnit_factor units))"
    by (simp_all add: keys_time)
  from factor_round_trip[OF lookup_time k1 k2] show ?thesis
    using k1 k2 lookup_time by simp
qed

section \<open>The scenarios of section 8\<close>

text \<open>
  C7: \<^verbatim>\<open>convert(10.0, 'Angstrom', 'nm') == 1.0\<close>, \<^verbatim>\<open>convert(1.0, 'nm', 'Angstrom') == 10.0\<close>,
  \<^verbatim>\<open>convert(1.0, 'ns', 'ps') == 1000.0\<close>, \<^verbatim>\<open>convert(1.0, 'ps', 'second') == 1e-12\<close> and
  \<^verbatim>\<open>get_conversion_factor('density', 'Angstrom^{-3}', 'nm^{-3}') == 1000.0\<close>: each call
  returns exactly the double the literal on the right denotes.
\<close>

theorem section_8_scenarios:
  "convert units (PyFloat (float_literal 10.0 0)) ''Angstrom'' ''nm'' = (Inr (float_literal 1.0 0), units)
   \<and> convert units (PyFloat (float_literal 1.0 0)) ''nm'' ''Angstrom'' = (Inr (float_literal 10.0 0), units)
   \<and> convert units (PyFloat (float_literal 1.0 0)) ''ns'' ''ps'' = (Inr (float_literal 1000.0 0), units)
   \<and> convert units (PyFloat (float_literal 1.0 0)) ''ps'' ''second'' = (Inr (float_literal 1 (- 12)), units)
   \<and> get_conversion_factor units ''density'' ''Angstrom^{-3}'' ''nm^{-3}'' =
       (Inr (float_literal 1000.0 0), units)"
proof (intro conjI)
  have angstrom: "map_of (lengthUnit_factor units) ''Angstrom'' = Some (Finite False 1)"
    by (simp add: units_lengthUnit_factor)
  have nm: "map_of (lengthUnit_factor units) ''nm'' =
      Some (Finite False (3602879701896397 / 2 ^ 55))"
    by (simp add: units_lengthUnit_factor A_ring_def)
  have ps: "map_of (timeUnit_factor units) ''ps'' = Some (Finite False 1)"
    by (simp add: units_timeUnit_factor)
  have ns: "map_of (timeUnit_factor units) ''ns'' = Some (Finite False (1152921504606847 / 2 ^ 60))"
    by (simp add: units_timeUnit_factor)
  have second: "map_of (timeUnit_factor units) ''second'' =
      Some (Finite False (4951760157141521 / 2 ^ 92))"
    by (simp add: units_timeUnit_factor)
  have a3: "map_of (densityUnit_factor units) ''Angstrom^{-3}'' = Some (Finite False 1)"
    by (simp add: units_densityUnit_factor)
  have nm3: "map_of (densityUnit_factor units) ''nm^{-3}'' = Some (Finite False 1000)"
    by (simp add: units_densityUnit_factor A_ring_def)
  show "convert units (PyFloat (float_literal 10.0 0)) ''Angstrom'' ''nm'' =
      (Inr (float_literal 1.0 0), units)"
    using convert_found(3)[OF lookup_length angstrom nm, of "PyFloat (Finite False 10)"]
    by (simp add: float_values scenario_values scenario_quotients number_mul_float_simps)
  show "convert units (PyFloat (float_literal 1.0 0)) ''nm'' ''Angstrom'' =
      (Inr (float_literal 10.0 0), units)"
    using convert_found(3)[OF lookup_length nm angstrom, of "PyFloat (Finite False 1)"]
    by (simp add: float_values scenario_values scenario_quotients number_mul_float_simps)
  show "convert units (PyFloat (float_literal 1.0 0)) ''ns'' ''ps'' = (Inr (float_literal 1000.0 0), units)"
    using convert_found(3)[OF lookup_time ns ps, of "PyFloat (Finite False 1)"]
    by (simp add: float_values scenario_values scenario_quotients number_mul_float_simps)
  show "convert units (PyFloat (float_literal 1.0 0)) ''ps'' ''second'' =
      (Inr (float_literal 1 (- 12)), units)"
    using convert_found(3)[OF lookup_time ps second, of "PyFloat (Finite False 1)"]
    by (simp add: float_values scenario_values scenario_quotients number_mul_float_simps)
  show "get_conversion_factor units ''density'' ''Angstrom^{-3}'' ''nm^{-3}'' =
      (Inr (float_literal 1000.0 0), units)"
    using convert_found(2)[OF lookup_density a3 nm3]
    by (simp add: float_values scenario_values scenario_quotients)
qed

section \<open>The registry invariant\<close>

text \<open>
  C8: the module body runs without an exception; in the registry it builds, the quantity
  types are \<^verbatim>\<open>length\<close>,
  \<^verbatim>\<open>density\<close> and \<^verbatim>\<open>time\<close>; every registered unit name is a key of exactly one
  type's table; \<^verbatim>\<open>unit_types\<close> maps a name to a type exactly when the name is a key of
  that type's table; the loop that fills \<^verbatim>\<open>unit_types\<close> gives the same mapping in
  whatever order (and however often) it scans the tables, so no table shadows a name of
  another; and neither \<^verbatim>\<open>get_conversion_factor\<close> nor \<^verbatim>\<open>convert\<close> changes the
  globals.
\<close>

theorem registry_unique_owner:
  "module_body = Inr units
   \<and> keys (conversion_factor units) = [''length'', ''density'', ''time'']
   \<and> (u \<in> set (keys (unit_types units)) \<longrightarrow>
        (\<exists>!T. \<exists>tab. map_of (conversion_factor units) T = Some tab \<and> u \<in> set (keys tab)))
   \<and> (map_of (unit_types units) u = Some T \<longleftrightarrow>
        (\<exists>tab. map_of (conversion_factor units) T = Some tab \<and> u \<in> set (keys tab)))
   \<and> (set its = set (items (conversion_factor units)) \<longrightarrow>
        map_of (unit_types_loop its) = map_of (unit_types units))
   \<and> snd (get_conversion_factor units T' u1 u2) = units
   \<and> snd (convert units x u1 u2) = units"
proof (intro conjI impI)
  show "module_body = Inr units"
    by (rule module_body_runs)
  show "keys (conversion_factor units) = [''length'', ''density'', ''time'']"
    by (simp add: units_conversion_factor keys_def)
  show iff: "map_of (unit_types units) u = Some T \<longleftrightarrow>
        (\<exists>tab. map_of (conversion_factor units) T = Some tab \<and> u \<in> set (keys tab))" for T
    using unit_types_consistent[of u T] table_consistent[of T _ u] by blast
  show "\<exists>!T. \<exists>tab. map_of (conversion_factor units) T = Some tab \<and> u \<in> set (keys tab)"
    if "u \<in> set (keys (unit_types units))"
  proof -
    from keys_map_of[OF that] obtain T0 where T0: "map_of (unit_types units) u = Some T0"
      by blast
    show ?thesis
    proof (intro ex1I[of _ T0])
      show "\<exists>tab. map_of (conversion_factor units) T0 = Some tab \<and> u \<in> set (keys tab)"
        using T0 by (rule unit_types_consistent)
    next
      fix T1
      assume "\<exists>tab. map_of (conversion_factor units) T1 = Some tab \<and> u \<in> set (keys tab)"
      then have "map_of (unit_types units) u = Some T1" by (auto intro: table_consistent)
      with T0 show "T1 = T0" by simp
    qed
  qed
  show "map_of (unit_types_loop its) = map_of (unit_types units)"
    if "set its = set (items (conversion_factor units))"
    using that by (rule unit_types_loop_any_order)
  show "snd (get_conversion_factor units T' u1 u2) = units"
    by (rule functions_keep_globals)
  show "snd (convert units x u1 u2) = units"
    by (rule functions_keep_globals)
qed

theorem registry_unique_owner_witness:
  "''Molar'' \<in> set (keys (unit_types units))
   \<and> (\<exists>!T. \<exists>tab. map_of (conversion_factor units) T = Some tab \<and> ''Molar'' \<in> set (keys tab))
   \<and> map_of (unit_types units) ''Molar'' = Some ''density''
   \<and> set (rev (items (conversion_factor units))) = set (items (conversion_factor units))
   \<and> map_of (unit_types_loop (rev (items (conversion_factor units)))) =
       map_of (unit_types units)"
proof -
  have m: "map_of (unit_types units) ''Molar'' = Some ''density''"
    by (intro unit_types_density) (simp add: keys_density)
  then have k: "''Molar'' \<in> set (keys (unit_types units))" by (rule map_of_keys)
  show ?thesis
    using k m
      registry_unique_owner[of "''Molar''" "''density''" "rev (items (conversion_factor units))"]
    by simp
qed

section \<open>The unchecked lookups and the division inside \<^verbatim>\<open>convert\<close>\<close>




section \<open>Properties of the H5MD reader\<close>

text \<open>
  C9: reading by frame fails unconditionally. For every reader and every frame index,
  \<^verbatim>\<open>_read_frame\<close> raises the \<^verbatim>\<open>TypeError\<close> saying that the class does not support
  direct frame indexing; no time step is returned and the reader is left as it was.
\<close>

theorem read_frame_always_raises:
  "read_frame self frame =
     (Inl (TypeError (cls_name self @ '' does not support direct frame indexing.'')), self)
   \<and> isl (fst (read_frame self frame))
   \<and> snd (read_frame self frame) = self"
  by (simp add: read_frame_def)


end
